theory Spec2Isabelle
  imports Main "HOL-Library.Word"
begin

unbundle bit_operations_syntax

section \<open>Data model of \<^verbatim>\<open>src/stat/main.c\<close>\<close>

text \<open>
  The C types: \<^verbatim>\<open>uint32_t\<close> is a 32-bit word, \<^verbatim>\<open>uint64_t\<close> a 64-bit word.
  \<^verbatim>\<open>size_t\<close> is taken at 64 bits (an LP64 Linux target). The C \<^verbatim>\<open>int\<close> values that
  occur (return codes, compared with \<^verbatim>\<open>-1\<close> and \<^verbatim>\<open>0\<close> only) are mathematical integers.
\<close>

type_synonym u32 = "32 word"
type_synonym u64 = "64 word"
type_synonym size_t = "64 word"

text \<open>
  \<^verbatim>\<open>struct cmdline\<close>. Its second field is \<^verbatim>\<open>irq_count\<close> in the source; it is
  \<open>cmd_irq_count\<close> here, because \<^verbatim>\<open>struct rtask_arg\<close> has a field of the same name.
\<close>

record cmdline =
  irq_fgen :: u32
  cmd_irq_count :: u32

text \<open>
  \<^verbatim>\<open>struct rtask_arg\<close>: the command line, the latency histogram (an array of
  \<^verbatim>\<open>LAT_MAX_COUNT\<close> counters of 32 bits), the number of handled IRQs and the number
  of missed IRQs.
\<close>

record rtask_arg =
  cmd :: cmdline
  lat_hist :: "u32 list"
  irq_count :: size_t
  irq_missed :: size_t

definition LAT_MAX_US :: nat where "LAT_MAX_US = 1000000"
definition LAT_RES_US :: nat where "LAT_RES_US = 1"
definition LAT_MAX_COUNT :: nat where "LAT_MAX_COUNT = LAT_MAX_US div LAT_RES_US"

definition REG_BAR :: nat where "REG_BAR = 0x01"
definition REG_BASE :: nat where "REG_BASE = 0x80"
definition REG_CTL :: nat where "REG_CTL = 0x00"
definition REG_TOGL :: nat where "REG_TOGL = 0x08"
definition REG_MAGIC :: nat where "REG_MAGIC = 0x0c"
definition REG_FCLK :: nat where "REG_FCLK = 0x10"
definition REG_START :: nat where "REG_START = 0x14"
definition REG_NOW :: nat where "REG_NOW = 0x18"
definition REG_COUNT :: nat where "REG_COUNT = 0x1c"

subsection \<open>The outside world\<close>

text \<open>
  Every call that leaves the program is an event of a trace, in the order of the calls:
  \<^item> \<open>EpciOpen bar ok\<close>: \<^verbatim>\<open>epci_open("10ee:eb01", NULL, bar)\<close>, \<open>ok\<close> iff the handle is
    not \<^verbatim>\<open>EPCI_BAD_HANDLE\<close>;
  \<^item> \<open>EpciClose bar\<close>: \<^verbatim>\<open>epci_close\<close> of the handle opened on \<open>bar\<close>;
  \<^item> \<open>Rd32 bar off v\<close>: \<^verbatim>\<open>epci_rd32_reg\<close> at byte offset \<open>off\<close>, which gave \<open>v\<close>;
  \<^item> \<open>Wr32 bar off v\<close>: \<^verbatim>\<open>epci_wr32_reg\<close> of \<open>v\<close> at byte offset \<open>off\<close>;
  \<^item> \<open>UirqInitLib ok\<close>, \<open>UirqOpen ok\<close>, \<open>UirqSetMask m v ok\<close>: the libuirq calls, \<open>ok\<close> iff
    the call returned 0;
  \<^item> \<open>UirqWait ms r m\<close>: \<^verbatim>\<open>uirq_wait(&uirq, ms, &mask)\<close> returned \<open>r\<close> and left \<open>m\<close> in
    \<^verbatim>\<open>mask\<close>;
  \<^item> \<open>UirqClose\<close>: \<^verbatim>\<open>uirq_close\<close>;
  \<^item> \<open>SignalSigint\<close>: \<^verbatim>\<open>signal(SIGINT, on_sigint)\<close>;
  \<^item> \<open>PError l\<close>: the macro \<^verbatim>\<open>PERROR()\<close> expanded at line \<open>l\<close> of \<^verbatim>\<open>main.c\<close>
    (\<^verbatim>\<open>CONFIG_DEBUG\<close> is 1, so it prints).
\<close>

datatype event =
    EpciOpen nat bool
  | EpciClose nat
  | Rd32 nat nat u32
  | Wr32 nat nat u32
  | UirqInitLib bool
  | UirqOpen bool
  | UirqSetMask u32 u32 bool
  | UirqWait nat int u32
  | UirqClose
  | SignalSigint
  | PError nat

text \<open>
  What the device and the libraries answer during the set-up of \<^verbatim>\<open>rtask_main\<close>
  (lines 271 to 344).
\<close>

record setup_env =
  bar0_open_ok :: bool
  bar0_ctl :: u32
  uirq_init_ok :: bool
  uirq_open_ok :: bool
  uirq_set_mask_ok :: bool
  epci_open_ok :: bool
  magic :: u32
  fclk :: u32

text \<open>
  What one iteration of the measurement loop gets from outside: the return value of
  \<^verbatim>\<open>uirq_wait\<close> and the mask it leaves, the registers \<^verbatim>\<open>REG_START\<close> and
  \<^verbatim>\<open>REG_NOW\<close> (read only when the mask is not 0), and the value of the volatile
  \<^verbatim>\<open>is_sigint\<close> when line 385 reads it (the signal handler \<^verbatim>\<open>on_sigint\<close> sets it to 1
  at any moment).
\<close>

record tick =
  wait_ret :: int
  wait_mask :: u32
  reg_start :: u32
  reg_now :: u32
  sigint :: bool

section \<open>The latency sample (lines 360 to 375)\<close>

text \<open>Lines 365 and 366: \<open>x\<close> is \<^verbatim>\<open>REG_START\<close>, \<open>xx\<close> is \<^verbatim>\<open>REG_NOW\<close>.\<close>

definition elapsed_ticks :: "u32 \<Rightarrow> u32 \<Rightarrow> u32" where
  "elapsed_ticks x xx = (if xx < x then (- 1) - x + xx else xx - x)"

text \<open>
  Line 370: the product and the quotient are taken on 64 bits, the cast to
  \<^verbatim>\<open>uint32_t\<close> keeps the low 32 bits. Dividing by \<^verbatim>\<open>irq_fclk = 0\<close> is undefined in C:
  \<open>None\<close>.
\<close>

definition to_micros :: "u32 \<Rightarrow> u32 \<Rightarrow> u32 option" where
  "to_micros xxx irq_fclk =
     (if irq_fclk = 0 then None
      else Some (ucast (((ucast xxx :: u64) * 1000000) div (ucast irq_fclk :: u64))))"

text \<open>Lines 374 and 375.\<close>

definition update_hist :: "u32 \<Rightarrow> rtask_arg \<Rightarrow> rtask_arg" where
  "update_hist xxx arg =
     (if unat xxx < LAT_MAX_COUNT
      then arg\<lparr>lat_hist := (lat_hist arg)[unat xxx := lat_hist arg ! unat xxx + 1]\<rparr>
      else arg\<lparr>irq_missed := irq_missed arg + 1\<rparr>)"

text \<open>Lines 363 to 375 together, with the two register reads.\<close>

definition record_irq ::
  "u32 \<Rightarrow> tick \<Rightarrow> rtask_arg \<Rightarrow> event list \<Rightarrow> (rtask_arg \<times> event list) option" where
  "record_irq irq_fclk t arg tr =
     (let x = reg_start t;
          xx = reg_now t;
          tr' = tr @ [Rd32 REG_BAR (REG_BASE + REG_START) x, Rd32 REG_BAR (REG_BASE + REG_NOW) xx]
      in case to_micros (elapsed_ticks x xx) irq_fclk of
           None \<Rightarrow> None
         | Some xxx \<Rightarrow> Some (update_hist xxx arg, tr'))"

section \<open>The measurement loop (lines 347 to 387)\<close>

text \<open>
  How the loop is left: \<open>Break\<close> by one of the two \<^verbatim>\<open>break\<close> of lines 385 and 386,
  \<open>WaitFailed\<close> by the \<^verbatim>\<open>goto on_error_3\<close> of line 353, \<open>DivTrap\<close> by the undefined
  division; \<open>Pending\<close> when the answers of the outside world are used up and the loop
  is still running.
\<close>

datatype loop_exit = Break | WaitFailed | DivTrap | Pending

text \<open>
  One iteration, lines 349 to 386, for the answers \<open>t\<close> of the outside world: \<open>Some e\<close>
  when the iteration leaves the loop, \<open>None\<close> when the loop goes on. In that case the
  increment \<^verbatim>\<open>++arg->irq_count\<close> of the \<^verbatim>\<open>for\<close> statement has run: it runs at the end
  of every iteration that does not leave the loop, also of those that jumped to
  \<^verbatim>\<open>skip_irq\<close>.
\<close>

definition loop_body ::
  "cmdline \<Rightarrow> u32 \<Rightarrow> tick \<Rightarrow> rtask_arg \<Rightarrow> event list
     \<Rightarrow> loop_exit option \<times> rtask_arg \<times> event list" where
  "loop_body c irq_fclk t arg tr =
     (let tr1 = tr @ [UirqWait 1000 (wait_ret t) (wait_mask t)] in
      if wait_ret t = - 1 then (Some WaitFailed, arg, tr1 @ [PError 352])
      else
        (case (if wait_mask t = 0 then Some (arg, tr1) else record_irq irq_fclk t arg tr1) of
           None \<Rightarrow>
             (Some DivTrap, arg,
              tr1 @ [Rd32 REG_BAR (REG_BASE + REG_START) (reg_start t),
                     Rd32 REG_BAR (REG_BASE + REG_NOW) (reg_now t)])
         | Some (arg2, tr2) \<Rightarrow>
             if sigint t then (Some Break, arg2, tr2)
             else if 0 < cmd_irq_count c \<and> irq_count arg2 = ucast (cmd_irq_count c)
               then (Some Break, arg2, tr2)
             else (None, arg2\<lparr>irq_count := irq_count arg2 + 1\<rparr>, tr2)))"

text \<open>The \<^verbatim>\<open>for\<close> statement of line 347, one equation per iteration.\<close>

fun irq_loop ::
  "cmdline \<Rightarrow> u32 \<Rightarrow> rtask_arg \<Rightarrow> event list \<Rightarrow> tick list
     \<Rightarrow> loop_exit \<times> rtask_arg \<times> event list" where
  "irq_loop c irq_fclk arg tr [] = (Pending, arg, tr)"
| "irq_loop c irq_fclk arg tr (t # ts) =
     (case loop_body c irq_fclk t arg tr of
        (Some e, arg', tr') \<Rightarrow> (e, arg', tr')
      | (None, arg', tr') \<Rightarrow> irq_loop c irq_fclk arg' tr' ts)"

text \<open>Line 346 and the initialisation of the \<^verbatim>\<open>for\<close> statement, then the loop.\<close>

definition measure_irqs ::
  "cmdline \<Rightarrow> u32 \<Rightarrow> rtask_arg \<Rightarrow> event list \<Rightarrow> tick list
     \<Rightarrow> loop_exit \<times> rtask_arg \<times> event list" where
  "measure_irqs c irq_fclk arg tr ticks =
     irq_loop c irq_fclk (arg\<lparr>irq_missed := 0, irq_count := 0\<rparr>) tr ticks"

section \<open>The realtime task (\<^verbatim>\<open>rtask_main\<close>, lines 256 to 400)\<close>

text \<open>
  How a run stands: \<open>Returned err\<close> when the function has returned \<open>err\<close>, \<open>Running\<close>
  when it is still in its loop, \<open>Trapped\<close> when it has executed a division by zero.
\<close>

datatype status = Returned int | Running | Trapped

record result =
  res_status :: status
  res_arg :: rtask_arg
  res_trace :: "event list"

text \<open>
  Lines 231 to 254. In \<^verbatim>\<open>(1 << 31) | (1 << 9)\<close> the shift \<^verbatim>\<open>1 << 31\<close> is the
  \<^verbatim>\<open>int\<close> of bit pattern \<^verbatim>\<open>0x80000000\<close> with gcc, which the assignment to a
  \<^verbatim>\<open>uint32_t\<close> keeps.
\<close>

definition enable_ebone_slave_interrupt :: "setup_env \<Rightarrow> event list \<Rightarrow> int \<times> event list" where
  "enable_ebone_slave_interrupt env tr =
     (if \<not> bar0_open_ok env then (- 1, tr @ [EpciOpen 0 False])
      else (0, tr @ [EpciOpen 0 True,
                     Rd32 0 0 (bar0_ctl env),
                     Wr32 0 0 (bar0_ctl env OR (push_bit 31 1 OR push_bit 9 1)),
                     EpciClose 0]))"

text \<open>The labels at the end of the function (lines 391 to 399), each falling into the next.\<close>

definition on_error_0 :: "int \<Rightarrow> rtask_arg \<Rightarrow> event list \<Rightarrow> result" where
  "on_error_0 err arg tr = \<lparr>res_status = Returned err, res_arg = arg, res_trace = tr\<rparr>"

definition on_error_1 :: "int \<Rightarrow> rtask_arg \<Rightarrow> event list \<Rightarrow> result" where
  "on_error_1 err arg tr = on_error_0 err arg tr"

definition on_error_2 :: "int \<Rightarrow> rtask_arg \<Rightarrow> event list \<Rightarrow> result" where
  "on_error_2 err arg tr = on_error_1 err arg (tr @ [UirqClose])"

definition on_error_3 :: "int \<Rightarrow> rtask_arg \<Rightarrow> event list \<Rightarrow> result" where
  "on_error_3 err arg tr =
     on_error_2 err arg (tr @ [Wr32 REG_BAR (REG_BASE + REG_CTL) 0, EpciClose REG_BAR])"

text \<open>
  Lines 336 to 387, once the magic number has been checked: the divider, the start of
  the generator and the loop. The division of line 337 is undefined in C when
  \<^verbatim>\<open>cmd->irq_fgen\<close> is 0.
\<close>

definition start_and_measure :: "setup_env \<Rightarrow> tick list \<Rightarrow> rtask_arg \<Rightarrow> event list \<Rightarrow> result" where
  "start_and_measure env ticks arg tr =
     (let irq_fclk = fclk env;
          tr1 = tr @ [Rd32 REG_BAR (REG_BASE + REG_FCLK) irq_fclk] in
      if irq_fgen (cmd arg) = 0
        then \<lparr>res_status = Trapped, res_arg = arg, res_trace = tr1\<rparr>
      else
        (let x = irq_fclk div irq_fgen (cmd arg) in
         if x = 0 then on_error_3 (- 1) arg (tr1 @ [PError 340])
         else
           (let tr2 = tr1 @ [Wr32 REG_BAR (REG_BASE + REG_CTL) (push_bit 31 1 OR x)] in
            case measure_irqs (cmd arg) irq_fclk arg tr2 ticks of
              (Break, arg', tr') \<Rightarrow> on_error_3 0 arg' tr'
            | (WaitFailed, arg', tr') \<Rightarrow> on_error_3 (- 1) arg' tr'
            | (DivTrap, arg', tr') \<Rightarrow> \<lparr>res_status = Trapped, res_arg = arg', res_trace = tr'\<rparr>
            | (Pending, arg', tr') \<Rightarrow> \<lparr>res_status = Running, res_arg = arg', res_trace = tr'\<rparr>)))"

text \<open>Lines 298 to 312: the register session and the magic number.\<close>

definition open_and_check :: "setup_env \<Rightarrow> tick list \<Rightarrow> rtask_arg \<Rightarrow> event list \<Rightarrow> result" where
  "open_and_check env ticks arg tr =
     (if \<not> epci_open_ok env
        then on_error_2 (- 1) arg (tr @ [EpciOpen REG_BAR False, PError 301])
      else
        (let x = magic env;
             tr1 = tr @ [EpciOpen REG_BAR True, Rd32 REG_BAR (REG_BASE + REG_MAGIC) x] in
         if x \<noteq> 0xbadcafee then on_error_3 (- 1) arg (tr1 @ [PError 310])
         else start_and_measure env ticks arg tr1))"

text \<open>The whole function, from line 271.\<close>

definition rtask_main :: "setup_env \<Rightarrow> tick list \<Rightarrow> rtask_arg \<Rightarrow> result" where
  "rtask_main env ticks arg =
     (case enable_ebone_slave_interrupt env [] of (r, tr0) \<Rightarrow>
      if r \<noteq> 0 then on_error_0 (- 1) arg (tr0 @ [PError 273])
      else if \<not> uirq_init_ok env
        then on_error_0 (- 1) arg (tr0 @ [UirqInitLib False, PError 279])
      else if \<not> uirq_open_ok env
        then on_error_1 (- 1) arg (tr0 @ [UirqInitLib True, UirqOpen False, PError 285])
      else if \<not> uirq_set_mask_ok env
        then on_error_2 (- 1) arg
               (tr0 @ [UirqInitLib True, UirqOpen True, UirqSetMask (push_bit 1 1) 1 False,
                       PError 291])
      else open_and_check env ticks arg
             (tr0 @ [UirqInitLib True, UirqOpen True, UirqSetMask (push_bit 1 1) 1 True,
                     SignalSigint]))"

section \<open>Command line (lines 57 to 86)\<close>

text \<open>
  \<^verbatim>\<open>strtoul\<close> is the C library's: it is a parameter, from the string and the base
  to the \<^verbatim>\<open>unsigned long\<close> it returns. The cast to \<^verbatim>\<open>uint32_t\<close> keeps the low 32 bits.
\<close>

definition get_num :: "(string \<Rightarrow> nat \<Rightarrow> nat) \<Rightarrow> string \<Rightarrow> u32" where
  "get_num strtoul s =
     (let base = (if length s > 2 \<and> s ! 0 = CHR ''0'' \<and> s ! 1 = CHR ''x'' then 16 else 10)
      in of_nat (strtoul s base))"

text \<open>
  The loop of line 76 over the pairs of arguments. The list has an even length when the
  loop is entered (line 71), so the equation for one element is never used.
\<close>

fun get_cmdline_loop :: "(string \<Rightarrow> nat \<Rightarrow> nat) \<Rightarrow> cmdline \<Rightarrow> string list \<Rightarrow> cmdline option" where
  "get_cmdline_loop strtoul c [] = Some c"
| "get_cmdline_loop strtoul c [k] = None"
| "get_cmdline_loop strtoul c (k # v # av) =
     (if k = ''-freq'' then get_cmdline_loop strtoul (c\<lparr>irq_fgen := get_num strtoul v\<rparr>) av
      else if k = ''-count''
        then get_cmdline_loop strtoul (c\<lparr>cmd_irq_count := get_num strtoul v\<rparr>) av
      else None)"

text \<open>\<open>av\<close> is the argument vector without the program name; \<open>None\<close> is the return of -1.\<close>

definition get_cmdline :: "(string \<Rightarrow> nat \<Rightarrow> nat) \<Rightarrow> string list \<Rightarrow> cmdline option" where
  "get_cmdline strtoul av =
     (if odd (length av) then None
      else get_cmdline_loop strtoul \<lparr>irq_fgen = 1000, cmd_irq_count = 0\<rparr> av)"

section \<open>The report (\<^verbatim>\<open>main\<close>, lines 405 to 444)\<close>

text \<open>What \<^verbatim>\<open>printf\<close> writes for \<^verbatim>\<open>%u\<close> and \<^verbatim>\<open>%zu\<close>: the decimal digits.\<close>

fun dec :: "nat \<Rightarrow> string" where
  "dec n =
     (if n < 10 then [''0123456789'' ! n] else dec (n div 10) @ [''0123456789'' ! (n mod 10)])"

text \<open>
  The loop of lines 434 to 438, entered at index \<open>i\<close>. The index starts at 0 and steps
  by 1, so the test \<^verbatim>\<open>i != LAT_MAX_COUNT\<close> of the source is \<open>i < LAT_MAX_COUNT\<close>.
\<close>

function report_loop :: "u32 list \<Rightarrow> nat \<Rightarrow> string list" where
  "report_loop h i =
     (if i < LAT_MAX_COUNT
      then (if h ! i = 0 then [] else [dec (i * LAT_RES_US) @ '' '' @ dec (unat (h ! i))])
           @ report_loop h (i + 1)
      else [])"
  by pat_completeness auto
termination
  by (relation "measure (\<lambda>(h, i). LAT_MAX_COUNT - i)") auto

text \<open>Lines 431 to 438.\<close>

definition report :: "rtask_arg \<Rightarrow> string list" where
  "report arg =
     [''# irq_count : '' @ dec (unat (irq_count arg)),
      ''# irq_missed: '' @ dec (unat (irq_missed arg))]
     @ report_loop (lat_hist arg) 0"

text \<open>The lines that the \<^verbatim>\<open>PERROR()\<close> of a trace have printed (\<^verbatim>\<open>__FILE__\<close> is \<^verbatim>\<open>main.c\<close>).\<close>

fun perror_lines :: "event list \<Rightarrow> string list" where
  "perror_lines [] = []"
| "perror_lines (PError l # es) = (''[!] main.c,'' @ dec l) # perror_lines es"
| "perror_lines (_ # es) = perror_lines es"

text \<open>
  What \<^verbatim>\<open>main\<close> gets from outside: \<^verbatim>\<open>strtoul\<close>, whether \<^verbatim>\<open>malloc\<close> gave memory,
  the value that the never initialised \<^verbatim>\<open>arg.irq_missed\<close> holds on the stack, whether
  \<^verbatim>\<open>pthread_setschedparam\<close> succeeded in \<^verbatim>\<open>rtask_entry\<close>, and what the task gets.
\<close>

record world =
  strtoul_fn :: "string \<Rightarrow> nat \<Rightarrow> nat"
  malloc_ok :: bool
  stack_irq_missed :: size_t
  sched_ok :: bool
  task_env :: setup_env
  ticks :: "tick list"

text \<open>
  Lines 99 to 138: the thread is started and joined; \<^verbatim>\<open>rtask->err\<close> is what it leaves.
  \<^verbatim>\<open>pthread_create\<close> is taken to succeed: line 129 ignores what it returns.
\<close>

definition rtask_run :: "world \<Rightarrow> rtask_arg \<Rightarrow> result" where
  "rtask_run w arg =
     (if \<not> sched_ok w then \<lparr>res_status = Returned (- 1), res_arg = arg, res_trace = []\<rparr>
      else rtask_main (task_env w) (ticks w) arg)"

record main_result =
  exit_status :: status
  stdout :: "string list"
  calls :: "event list"

text \<open>
  Lines 414 to 422: the argument of the task as \<^verbatim>\<open>main\<close> builds it. The histogram is
  zeroed, \<^verbatim>\<open>irq_count\<close> is set to 0, \<^verbatim>\<open>irq_missed\<close> is left as found (\<open>m\<close>).
\<close>

definition initial_arg :: "cmdline \<Rightarrow> size_t \<Rightarrow> rtask_arg" where
  "initial_arg c m = \<lparr>cmd = c, lat_hist = replicate LAT_MAX_COUNT 0, irq_count = 0, irq_missed = m\<rparr>"

definition main :: "world \<Rightarrow> string list \<Rightarrow> main_result" where
  "main w av =
     (case get_cmdline (strtoul_fn w) av of
        None \<Rightarrow> \<lparr>exit_status = Returned (- 1), stdout = [], calls = []\<rparr>
      | Some c \<Rightarrow>
          if \<not> malloc_ok w then \<lparr>exit_status = Returned (- 1), stdout = [], calls = []\<rparr>
          else
            (let arg = initial_arg c (stack_irq_missed w);
                 r = rtask_run w arg in
             case res_status r of
               Returned err \<Rightarrow>
                 \<lparr>exit_status = Returned err,
                  stdout = perror_lines (res_trace r) @ report (res_arg r),
                  calls = res_trace r\<rparr>
             | st \<Rightarrow>
                 \<lparr>exit_status = st, stdout = perror_lines (res_trace r), calls = res_trace r\<rparr>))"

section \<open>Observations on traces and histograms\<close>

text \<open>The values written to \<^verbatim>\<open>REG_CTL\<close> of the register session, in order.\<close>

fun ctl_writes :: "event list \<Rightarrow> u32 list" where
  "ctl_writes [] = []"
| "ctl_writes (Wr32 b off v # es) =
     (if b = REG_BAR \<and> off = REG_BASE + REG_CTL then v # ctl_writes es else ctl_writes es)"
| "ctl_writes (_ # es) = ctl_writes es"

text \<open>All register writes of a trace: BAR, offset and value.\<close>

fun reg_writes :: "event list \<Rightarrow> (nat \<times> nat \<times> u32) list" where
  "reg_writes [] = []"
| "reg_writes (Wr32 b off v # es) = (b, off, v) # reg_writes es"
| "reg_writes (_ # es) = reg_writes es"

text \<open>The events that follow the first occurrence of an event.\<close>

fun events_after :: "event \<Rightarrow> event list \<Rightarrow> event list" where
  "events_after e [] = []"
| "events_after e (x # xs) = (if x = e then xs else events_after e xs)"

text \<open>
  The number of waits of a trace that returned with a mask that is not 0 (and not with
  the error -1): the iterations that go on to read a latency sample.
\<close>

fun irq_waits :: "event list \<Rightarrow> nat" where
  "irq_waits [] = 0"
| "irq_waits (UirqWait ms r m # es) = (if r \<noteq> - 1 \<and> m \<noteq> 0 then 1 else 0) + irq_waits es"
| "irq_waits (_ # es) = irq_waits es"

text \<open>The number of reads of \<^verbatim>\<open>REG_START\<close>, one per latency sample.\<close>

fun sample_reads :: "event list \<Rightarrow> nat" where
  "sample_reads [] = 0"
| "sample_reads (Rd32 b off v # es) =
     (if b = REG_BAR \<and> off = REG_BASE + REG_START then 1 else 0) + sample_reads es"
| "sample_reads (_ # es) = sample_reads es"

text \<open>The timeouts, in milliseconds, given to the calls of \<^verbatim>\<open>uirq_wait\<close>, in order.\<close>

fun wait_timeouts :: "event list \<Rightarrow> nat list" where
  "wait_timeouts [] = []"
| "wait_timeouts (UirqWait ms r m # es) = ms # wait_timeouts es"
| "wait_timeouts (_ # es) = wait_timeouts es"

text \<open>
  The events of the loop: a wait of 1000 ms, a read of \<^verbatim>\<open>REG_START\<close> or of
  \<^verbatim>\<open>REG_NOW\<close>, the \<^verbatim>\<open>PERROR()\<close> of line 352.
\<close>

fun loop_event :: "event \<Rightarrow> bool" where
  "loop_event (UirqWait ms r m) = (ms = 1000)"
| "loop_event (Rd32 b off v) =
     (b = REG_BAR \<and> (off = REG_BASE + REG_START \<or> off = REG_BASE + REG_NOW))"
| "loop_event (PError l) = (l = 352)"
| "loop_event _ = False"

text \<open>The sum of all buckets of a histogram.\<close>

definition hist_total :: "u32 list \<Rightarrow> nat" where
  "hist_total h = sum_list (map unat h)"

text \<open>
  Sessions, and the discipline of a stack on them: every close is of the session opened
  last among those still open, and at the end nothing is open.
\<close>

datatype session = EpciSession nat | UirqSession

fun released_in_reverse :: "session list \<Rightarrow> event list \<Rightarrow> bool" where
  "released_in_reverse held [] = (held = [])"
| "released_in_reverse held (EpciOpen b ok # es) =
     released_in_reverse (if ok then EpciSession b # held else held) es"
| "released_in_reverse held (UirqOpen ok # es) =
     released_in_reverse (if ok then UirqSession # held else held) es"
| "released_in_reverse held (EpciClose b # es) =
     (case held of [] \<Rightarrow> False | s # ss \<Rightarrow> s = EpciSession b \<and> released_in_reverse ss es)"
| "released_in_reverse held (UirqClose # es) =
     (case held of [] \<Rightarrow> False | s # ss \<Rightarrow> s = UirqSession \<and> released_in_reverse ss es)"
| "released_in_reverse held (_ # es) = released_in_reverse held es"

text \<open>
  The set-up of \<^verbatim>\<open>rtask_main\<close> has gone through up to the opening of the register
  session (lines 271 to 303), and what the trace holds at that point.
\<close>

definition session_opened :: "setup_env \<Rightarrow> bool" where
  "session_opened env =
     (bar0_open_ok env \<and> uirq_init_ok env \<and> uirq_open_ok env \<and> uirq_set_mask_ok env
      \<and> epci_open_ok env)"

definition setup_trace :: "setup_env \<Rightarrow> event list" where
  "setup_trace env =
     [EpciOpen 0 True, Rd32 0 0 (bar0_ctl env), Wr32 0 0 (bar0_ctl env OR 0x80000200),
      EpciClose 0, UirqInitLib True, UirqOpen True, UirqSetMask 2 1 True, SignalSigint,
      EpciOpen REG_BAR True, Rd32 REG_BAR (REG_BASE + REG_MAGIC) (magic env)]"

text \<open>
  The report in the words of the specification: the two summary lines, then one line
  \<open>offset count\<close> for each bucket that is not 0, by ascending offset.
\<close>

definition report_spec :: "rtask_arg \<Rightarrow> string list" where
  "report_spec arg =
     [''# irq_count : '' @ dec (unat (irq_count arg)),
      ''# irq_missed: '' @ dec (unat (irq_missed arg))]
     @ map (\<lambda>i. dec i @ '' '' @ dec (unat (lat_hist arg ! i)))
         (filter (\<lambda>i. lat_hist arg ! i \<noteq> 0) [0..<LAT_MAX_COUNT])"

section \<open>Facts\<close>

lemmas reg_defs =
  REG_BAR_def REG_BASE_def REG_CTL_def REG_TOGL_def REG_MAGIC_def REG_FCLK_def
  REG_START_def REG_NOW_def REG_COUNT_def

lemmas lat_defs = LAT_MAX_COUNT_def LAT_MAX_US_def LAT_RES_US_def

declare dec.simps [simp del]
declare report_loop.simps [simp del]

subsection \<open>Observations distribute over concatenation\<close>

lemma irq_waits_append: "irq_waits (xs @ ys) = irq_waits xs + irq_waits ys"
  by (induction xs rule: irq_waits.induct) auto

lemma sample_reads_append: "sample_reads (xs @ ys) = sample_reads xs + sample_reads ys"
  by (induction xs rule: sample_reads.induct) auto

lemma wait_timeouts_append: "wait_timeouts (xs @ ys) = wait_timeouts xs @ wait_timeouts ys"
  by (induction xs rule: wait_timeouts.induct) auto

lemma ctl_writes_append: "ctl_writes (xs @ ys) = ctl_writes xs @ ctl_writes ys"
  by (induction xs rule: ctl_writes.induct) auto

lemma reg_writes_append: "reg_writes (xs @ ys) = reg_writes xs @ reg_writes ys"
  by (induction xs rule: reg_writes.induct) auto

lemma perror_lines_append: "perror_lines (xs @ ys) = perror_lines xs @ perror_lines ys"
  by (induction xs rule: perror_lines.induct) auto

subsection \<open>Histograms\<close>

lemma hist_total_update:
  "i < length h \<Longrightarrow> hist_total (h[i := v]) + unat (h ! i) = hist_total h + unat v"
proof (induction h arbitrary: i)
  case Nil
  then show ?case by simp
next
  case (Cons a h)
  then show ?case by (cases i) (auto simp: hist_total_def)
qed

lemma hist_total_nth_le: "i < length h \<Longrightarrow> unat (h ! i) \<le> hist_total h"
proof (induction h arbitrary: i)
  case Nil
  then show ?case by simp
next
  case (Cons a h)
  show ?case
  proof (cases i)
    case 0
    then show ?thesis by (simp add: hist_total_def)
  next
    case (Suc j)
    then have "unat (h ! j) \<le> hist_total h" using Cons by simp
    then show ?thesis using Suc by (simp add: hist_total_def)
  qed
qed

lemma hist_total_replicate: "hist_total (replicate n 0) = 0"
  by (simp add: hist_total_def)

lemma hist_total_single: "i < n \<Longrightarrow> hist_total ((replicate n 0)[i := v]) = unat v"
  using hist_total_update [of i "replicate n 0" v] by (simp add: hist_total_replicate)

lemma length_update_hist: "length (lat_hist (update_hist x a)) = length (lat_hist a)"
  by (simp add: update_hist_def)

lemma irq_count_update_hist: "irq_count (update_hist x a) = irq_count a"
  by (simp add: update_hist_def)

lemma update_hist_total:
  assumes len: "length (lat_hist a) = LAT_MAX_COUNT"
    and bound: "hist_total (lat_hist a) + unat (irq_missed a) + 1 < 2 ^ 32"
  shows "hist_total (lat_hist (update_hist x a)) + unat (irq_missed (update_hist x a))
         = hist_total (lat_hist a) + unat (irq_missed a) + 1"
proof (cases "unat x < LAT_MAX_COUNT")
  case True
  let ?b = "lat_hist a ! unat x"
  have i: "unat x < length (lat_hist a)" using True len by simp
  have "unat ?b \<le> hist_total (lat_hist a)" using i by (rule hist_total_nth_le)
  then have "unat ?b + 1 < 2 ^ 32" using bound by simp
  then have inc: "unat (?b + 1) = unat ?b + 1"
    by (simp add: unat_word_ariths)
  have "hist_total ((lat_hist a)[unat x := ?b + 1]) + unat ?b = hist_total (lat_hist a) + unat (?b + 1)"
    using i by (rule hist_total_update)
  then show ?thesis using True inc by (simp add: update_hist_def)
next
  case False
  have "unat (irq_missed a) + 1 < 2 ^ 64" using bound by simp
  then have "unat (irq_missed a + 1) = unat (irq_missed a) + 1"
    by (simp add: unat_word_ariths)
  then show ?thesis using False by (simp add: update_hist_def)
qed

subsection \<open>One iteration\<close>

lemma record_irq_Some:
  "f \<noteq> 0 \<Longrightarrow> \<exists>x. record_irq f t a tr =
     Some (update_hist x a,
           tr @ [Rd32 REG_BAR (REG_BASE + REG_START) (reg_start t),
                 Rd32 REG_BAR (REG_BASE + REG_NOW) (reg_now t)])"
  by (auto simp: record_irq_def to_micros_def Let_def)

text \<open>The four ways through one iteration.\<close>

lemma loop_body_cases:
  assumes "loop_body c f t a tr = (x, a', tr')" and "f \<noteq> 0"
  obtains
    (failed) "wait_ret t = - 1" "x = Some WaitFailed" "a' = a"
      "tr' = tr @ [UirqWait 1000 (wait_ret t) (wait_mask t), PError 352]"
  | (empty) "wait_ret t \<noteq> - 1" "wait_mask t = 0"
      "tr' = tr @ [UirqWait 1000 (wait_ret t) (wait_mask t)]"
      "x = Some Break \<and> a' = a \<or> x = None \<and> a' = a\<lparr>irq_count := irq_count a + 1\<rparr>"
  | (sample) y where "wait_ret t \<noteq> - 1" "wait_mask t \<noteq> 0"
      "tr' = tr @ [UirqWait 1000 (wait_ret t) (wait_mask t),
                   Rd32 REG_BAR (REG_BASE + REG_START) (reg_start t),
                   Rd32 REG_BAR (REG_BASE + REG_NOW) (reg_now t)]"
      "x = Some Break \<and> a' = update_hist y a
       \<or> x = None \<and> a' = (update_hist y a)\<lparr>irq_count := irq_count a + 1\<rparr>"
proof (cases "wait_ret t = - 1")
  case True
  then show ?thesis using assms(1) failed by (simp add: loop_body_def Let_def)
next
  case ok: False
  show ?thesis
  proof (cases "wait_mask t = 0")
    case True
    then show ?thesis using assms(1) ok empty
      by (auto simp: loop_body_def Let_def split: if_splits)
  next
    case False
    obtain y where "record_irq f t a (tr @ [UirqWait 1000 (wait_ret t) (wait_mask t)]) =
       Some (update_hist y a,
             (tr @ [UirqWait 1000 (wait_ret t) (wait_mask t)])
              @ [Rd32 REG_BAR (REG_BASE + REG_START) (reg_start t),
                 Rd32 REG_BAR (REG_BASE + REG_NOW) (reg_now t)])"
      using record_irq_Some [OF assms(2)] by blast
    then show ?thesis using assms(1) ok False sample [of y]
      by (auto simp: loop_body_def Let_def irq_count_update_hist split: if_splits)
  qed
qed

lemma loop_body_exits:
  "loop_body c f t a tr = (Some e, a', tr') \<Longrightarrow> f \<noteq> 0 \<Longrightarrow> e = Break \<or> e = WaitFailed"
  by (erule loop_body_cases) auto

lemma loop_body_sigint:
  "sigint t \<Longrightarrow> loop_body c f t a tr = (x, a', tr') \<Longrightarrow> x \<noteq> None"
  by (auto simp: loop_body_def Let_def split: if_splits option.splits)

lemma loop_body_trace:
  assumes "loop_body c f t a tr = (x, a', tr')" and "f \<noteq> 0"
  shows "\<exists>ext. tr' = tr @ ext \<and> list_all loop_event ext \<and> wait_timeouts ext = [1000]"
  using assms by (rule loop_body_cases) simp_all

lemma loop_body_conservation:
  assumes "loop_body c f t a tr = (x, a', tr')" and "f \<noteq> 0"
    and "length (lat_hist a) = LAT_MAX_COUNT"
    and "hist_total (lat_hist a) + unat (irq_missed a) = irq_waits tr"
    and "sample_reads tr = irq_waits tr"
    and "irq_waits tr' < 2 ^ 32"
  shows "length (lat_hist a') = LAT_MAX_COUNT
         \<and> hist_total (lat_hist a') + unat (irq_missed a') = irq_waits tr'
         \<and> sample_reads tr' = irq_waits tr'"
  using assms(1,2)
proof (cases rule: loop_body_cases)
  case failed
  then show ?thesis using assms(3-5)
    by (simp add: irq_waits_append sample_reads_append)
next
  case empty
  then show ?thesis using assms(3-5)
    by (auto simp: irq_waits_append sample_reads_append)
next
  case (sample y)
  have w: "irq_waits tr' = irq_waits tr + 1"
    using sample(1-3) by (simp add: irq_waits_append)
  have s: "sample_reads tr' = sample_reads tr + 1"
    using sample(3) by (simp add: sample_reads_append reg_defs)
  have "hist_total (lat_hist a) + unat (irq_missed a) + 1 < 2 ^ 32"
    using assms(4,6) w by simp
  then have "hist_total (lat_hist (update_hist y a)) + unat (irq_missed (update_hist y a))
             = irq_waits tr'"
    using update_hist_total [OF assms(3), of y] assms(4) w by simp
  then show ?thesis using sample(4) assms(3,5) w s
    by (auto simp: length_update_hist)
qed

subsection \<open>The loop\<close>

lemma irq_loop_trace:
  assumes "irq_loop c f a tr ts = (e, a', tr')" and "f \<noteq> 0"
  shows "\<exists>ext. tr' = tr @ ext \<and> list_all loop_event ext
           \<and> length (wait_timeouts ext) \<le> length ts"
  using assms
proof (induction ts arbitrary: a tr)
  case Nil
  then show ?case by simp
next
  case (Cons t ts)
  obtain x a1 tr1 where b: "loop_body c f t a tr = (x, a1, tr1)"
    by (cases "loop_body c f t a tr") auto
  obtain ext1 where e1: "tr1 = tr @ ext1" "list_all loop_event ext1" "wait_timeouts ext1 = [1000]"
    using loop_body_trace [OF b Cons.prems(2)] by blast
  show ?case
  proof (cases x)
    case None
    then have "irq_loop c f a1 tr1 ts = (e, a', tr')"
      using Cons.prems(1) b by simp
    then obtain ext2 where "tr' = tr1 @ ext2" "list_all loop_event ext2"
        "length (wait_timeouts ext2) \<le> length ts"
      using Cons.IH Cons.prems(2) by blast
    then show ?thesis using e1
      by (intro exI [of _ "ext1 @ ext2"]) (simp add: wait_timeouts_append)
  next
    case (Some e0)
    then have "tr' = tr1" using Cons.prems(1) b by simp
    then show ?thesis using e1 by (intro exI [of _ ext1]) simp
  qed
qed

lemma loop_events_timeouts:
  "list_all loop_event ext \<Longrightarrow> wait_timeouts ext = replicate (length (wait_timeouts ext)) 1000"
  by (induction ext rule: wait_timeouts.induct) auto

lemma loop_events_no_writes: "list_all loop_event ext \<Longrightarrow> reg_writes ext = []"
  by (induction ext rule: reg_writes.induct) auto

lemma loop_events_no_ctl_writes: "list_all loop_event ext \<Longrightarrow> ctl_writes ext = []"
  by (induction ext rule: ctl_writes.induct) auto

lemma loop_events_released:
  "list_all loop_event ext \<Longrightarrow> released_in_reverse held (ext @ es) = released_in_reverse held es"
  by (induction held ext rule: released_in_reverse.induct) auto

lemma irq_waits_mono:
  "irq_loop c f a tr ts = (e, a', tr') \<Longrightarrow> f \<noteq> 0 \<Longrightarrow> irq_waits tr \<le> irq_waits tr'"
  using irq_loop_trace [of c f a tr ts e a' tr'] by (auto simp: irq_waits_append)

lemma irq_loop_conservation:
  assumes "irq_loop c f a tr ts = (e, a', tr')"
    and "f \<noteq> 0"
    and "length (lat_hist a) = LAT_MAX_COUNT"
    and "hist_total (lat_hist a) + unat (irq_missed a) = irq_waits tr"
    and "sample_reads tr = irq_waits tr"
    and "irq_waits tr' < 2 ^ 32"
  shows "hist_total (lat_hist a') + unat (irq_missed a') = irq_waits tr'
         \<and> sample_reads tr' = irq_waits tr'"
  using assms
proof (induction ts arbitrary: a tr)
  case Nil
  then show ?case by simp
next
  case (Cons t ts)
  obtain x a1 tr1 where b: "loop_body c f t a tr = (x, a1, tr1)"
    by (cases "loop_body c f t a tr") auto
  show ?case
  proof (cases x)
    case None
    then have rec: "irq_loop c f a1 tr1 ts = (e, a', tr')"
      using Cons.prems(1) b by simp
    then have "irq_waits tr1 \<le> irq_waits tr'"
      using Cons.prems(2) by (rule irq_waits_mono)
    then have "irq_waits tr1 < 2 ^ 32"
      using Cons.prems(6) by simp
    then have inv: "length (lat_hist a1) = LAT_MAX_COUNT"
      "hist_total (lat_hist a1) + unat (irq_missed a1) = irq_waits tr1"
      "sample_reads tr1 = irq_waits tr1"
      using loop_body_conservation [OF b Cons.prems(2-5)] by simp_all
    show ?thesis
      using Cons.IH [OF rec Cons.prems(2) inv Cons.prems(6)] .
  next
    case (Some e0)
    then have "a' = a1" "tr' = tr1" using Cons.prems(1) b by simp_all
    then show ?thesis
      using loop_body_conservation [OF b Cons.prems(2-5)] Cons.prems(6) by simp
  qed
qed

lemma sigint_ignores_rest:
  "sigint t \<Longrightarrow> irq_loop c f a tr (pre @ t # rest) = irq_loop c f a tr (pre @ [t])"
proof (induction pre arbitrary: a tr)
  case Nil
  obtain x a1 tr1 where b: "loop_body c f t a tr = (x, a1, tr1)"
    by (cases "loop_body c f t a tr") auto
  then have "x \<noteq> None" using Nil loop_body_sigint by blast
  then show ?case using b by auto
next
  case (Cons p pre)
  then show ?case by (simp split: prod.splits option.splits)
qed

lemma sigint_leaves_loop:
  "sigint t \<Longrightarrow> f \<noteq> 0 \<Longrightarrow> fst (irq_loop c f a tr (pre @ [t])) \<in> {Break, WaitFailed}"
proof (induction pre arbitrary: a tr)
  case Nil
  obtain x a1 tr1 where b: "loop_body c f t a tr = (x, a1, tr1)"
    by (cases "loop_body c f t a tr") auto
  then obtain e where "x = Some e" using Nil(1) loop_body_sigint by blast
  then show ?case using b loop_body_exits [of c f t a tr e a1 tr1] Nil(2) by auto
next
  case (Cons p pre)
  obtain x a1 tr1 where b: "loop_body c f p a tr = (x, a1, tr1)"
    by (cases "loop_body c f p a tr") auto
  show ?case
  proof (cases x)
    case None
    then show ?thesis using b Cons by simp
  next
    case (Some e)
    then show ?thesis using b loop_body_exits [of c f p a tr e a1 tr1] Cons.prems(2) by auto
  qed
qed

section \<open>Claims on the latency sample\<close>

text \<open>
  Claim C3. When \<^verbatim>\<open>REG_NOW\<close> is below \<^verbatim>\<open>REG_START\<close> (the 32-bit counter has wrapped),
  the elapsed value of line 365, \<^verbatim>\<open>((uint32_t)-1) - x + xx\<close>, is the difference of the two
  readings modulo \<open>2 ^ 32\<close>, less one tick.
\<close>

theorem wraparound_elapsed_one_less:
  "xx < x \<Longrightarrow> uint (elapsed_ticks x xx) = (uint xx - uint x) mod 2 ^ 32 - 1"
proof -
  assume lt: "xx < x"
  have e: "elapsed_ticks x xx = (xx - x) - 1"
    using lt by (simp add: elapsed_ticks_def)
  have ne: "xx - x \<noteq> 0"
    using lt by auto
  have d: "uint (xx - x) = (uint xx - uint x) mod 2 ^ 32"
    by (simp add: uint_word_ariths)
  have "uint (xx - x) \<noteq> 0"
    using ne by (simp add: uint_0_iff)
  then have pos: "0 < uint (xx - x)"
    using uint_nonnegative [of "xx - x"] by linarith
  have bd: "uint (xx - x) < 2 ^ 32"
    using uint_bounded [of "xx - x"] by simp
  have "uint (xx - x - 1) = (uint (xx - x) - 1) mod 2 ^ 32"
    by (simp add: uint_word_ariths)
  also have "\<dots> = uint (xx - x) - 1"
    using pos bd by (intro mod_pos_pos_trivial) auto
  finally show ?thesis
    unfolding e d .
qed

theorem wraparound_elapsed_one_less_witness:
  "(5::u32) < 4294967290 \<and>
   uint (elapsed_ticks 4294967290 (5::u32)) = (uint (5::u32) - uint (4294967290::u32)) mod 2 ^ 32 - 1"
  using wraparound_elapsed_one_less [of 5 4294967290] by simp

text \<open>
  Claim C2 holds that the microseconds are the exact quotient
  \<open>elapsed * 1000000 div clockHz\<close> for every clock above 0, and that the sample counts as
  missed whenever this quotient is not below 1000000. At a clock of 500000 Hz and an
  elapsed time of \<open>2 ^ 31\<close> ticks the exact quotient is \<open>2 ^ 32\<close>; line 370 keeps its low
  32 bits, which are 0, and line 374 increments bucket 0 instead of \<^verbatim>\<open>irq_missed\<close>.
\<close>

theorem quotient_truncated_to_32_bits:
  "unat (elapsed_ticks 0 0x80000000) * 1000000 div unat (500000 :: u32) = 2 ^ 32
   \<and> to_micros (elapsed_ticks 0 0x80000000) 500000 = Some 0
   \<and> record_irq 500000
        \<lparr>wait_ret = 0, wait_mask = 2, reg_start = 0, reg_now = 0x80000000, sigint = False\<rparr>
        (initial_arg c 0) []
      = Some (\<lparr>cmd = c, lat_hist = (replicate LAT_MAX_COUNT 0)[0 := 1], irq_count = 0,
                irq_missed = 0\<rparr>,
              [Rd32 REG_BAR (REG_BASE + REG_START) 0,
               Rd32 REG_BAR (REG_BASE + REG_NOW) 0x80000000])"
  by (simp add: elapsed_ticks_def to_micros_def record_irq_def update_hist_def initial_arg_def
      lat_defs)

text \<open>
  What does hold of line 370: when the exact quotient fits 32 bits (as it does for every
  clock of 1 MHz or more), the microseconds are the exact quotient.
\<close>

lemma unat_ucast_32_64: "unat (ucast (w :: u32) :: u64) = unat w"
proof -
  have "unat w < 2 ^ 32" using unsigned_less [of w] by simp
  then have "unat w < 2 ^ 64" by simp
  then show ?thesis
    by (simp add: unsigned_ucast_eq take_bit_nat_eq_self)
qed

lemma to_micros_exact:
  assumes "f \<noteq> 0" and "unat xxx * 1000000 div unat f < 2 ^ 32"
  shows "\<exists>us. to_micros xxx f = Some us \<and> unat us = unat xxx * 1000000 div unat f"
proof -
  have x: "unat xxx < 2 ^ 32"
    using unsigned_less [of xxx] by simp
  then have "unat xxx * 1000000 < 2 ^ 32 * 1000000"
    by simp
  then have p: "unat xxx * 1000000 < 2 ^ 64"
    by simp
  have m: "unat ((ucast xxx :: u64) * 1000000) = unat xxx * 1000000"
    using p by (simp add: unat_word_ariths unat_ucast_32_64)
  have d: "unat (((ucast xxx :: u64) * 1000000) div ucast f) = unat xxx * 1000000 div unat f"
    by (simp add: unat_div m unat_ucast_32_64)
  have "unat (ucast (((ucast xxx :: u64) * 1000000) div (ucast f :: u64)) :: u32)
        = unat xxx * 1000000 div unat f"
    using assms(2) d by (simp add: unsigned_ucast_eq take_bit_nat_eq_self)
  then show ?thesis
    using assms(1) by (simp add: to_micros_def)
qed

section \<open>Claims on the measurement loop\<close>

text \<open>
  Claim C4, amended. The code keeps no count of observed samples. After \<open>N\<close> iterations
  whose wait returned a mask that is not 0, with \<open>N\<close> below \<open>2 ^ 32\<close> (a bucket has 32
  bits), the sum of the buckets plus \<^verbatim>\<open>irq_missed\<close> is \<open>N\<close>, and \<open>N\<close> latency samples
  have been read. The statement is for every list of answers, so for every prefix of a
  run: it holds at every point of the run (\<open>Pending\<close>) as well as when the loop is left.
\<close>

theorem histogram_conservation:
  assumes "measure_irqs c f arg [] ts = (e, arg', tr')"
    and "f \<noteq> 0"
    and "lat_hist arg = replicate LAT_MAX_COUNT 0"
    and "irq_waits tr' < 2 ^ 32"
  shows "hist_total (lat_hist arg') + unat (irq_missed arg') = irq_waits tr'
         \<and> sample_reads tr' = irq_waits tr'"
proof -
  let ?a = "arg\<lparr>irq_missed := 0, irq_count := 0\<rparr>"
  have run: "irq_loop c f ?a [] ts = (e, arg', tr')"
    using assms(1) by (simp add: measure_irqs_def)
  have len: "length (lat_hist ?a) = LAT_MAX_COUNT"
    using assms(3) by simp
  have zero: "hist_total (lat_hist ?a) + unat (irq_missed ?a) = irq_waits []"
    using assms(3) by (simp add: hist_total_replicate)
  show ?thesis
    using irq_loop_conservation [OF run assms(2) len zero _ assms(4)] by simp
qed

theorem histogram_conservation_witness:
  "measure_irqs \<lparr>irq_fgen = 1000, cmd_irq_count = 0\<rparr> 1000000
     (initial_arg \<lparr>irq_fgen = 1000, cmd_irq_count = 0\<rparr> 7) []
     [\<lparr>wait_ret = 0, wait_mask = 2, reg_start = 1000, reg_now = 1040, sigint = False\<rparr>,
      \<lparr>wait_ret = 0, wait_mask = 0, reg_start = 0, reg_now = 0, sigint = False\<rparr>]
   = (Pending,
      \<lparr>cmd = \<lparr>irq_fgen = 1000, cmd_irq_count = 0\<rparr>,
       lat_hist = (replicate LAT_MAX_COUNT 0)[40 := 1], irq_count = 2, irq_missed = 0\<rparr>,
      [UirqWait 1000 0 2, Rd32 REG_BAR (REG_BASE + REG_START) 1000,
       Rd32 REG_BAR (REG_BASE + REG_NOW) 1040, UirqWait 1000 0 0])
   \<and> (1000000 :: u32) \<noteq> 0
   \<and> hist_total ((replicate LAT_MAX_COUNT 0)[40 := 1]) + unat (0 :: size_t) = 1"
proof -
  let ?c = "\<lparr>irq_fgen = 1000, cmd_irq_count = 0\<rparr>"
  let ?tr = "[UirqWait 1000 0 2, Rd32 REG_BAR (REG_BASE + REG_START) 1000,
       Rd32 REG_BAR (REG_BASE + REG_NOW) 1040, UirqWait 1000 0 0]"
  have run: "measure_irqs ?c 1000000 (initial_arg ?c 7) []
     [\<lparr>wait_ret = 0, wait_mask = 2, reg_start = 1000, reg_now = 1040, sigint = False\<rparr>,
      \<lparr>wait_ret = 0, wait_mask = 0, reg_start = 0, reg_now = 0, sigint = False\<rparr>]
   = (Pending,
      \<lparr>cmd = ?c, lat_hist = (replicate LAT_MAX_COUNT 0)[40 := 1], irq_count = 2, irq_missed = 0\<rparr>,
      ?tr)"
    by (simp add: measure_irqs_def initial_arg_def loop_body_def record_irq_def to_micros_def
        elapsed_ticks_def update_hist_def lat_defs Let_def)
  have w: "irq_waits ?tr < 2 ^ 32"
    by simp
  have z: "lat_hist (initial_arg ?c 7) = replicate LAT_MAX_COUNT 0"
    by (simp add: initial_arg_def)
  show ?thesis
    using histogram_conservation [OF run _ z w] run by simp
qed

text \<open>
  Two runs for claim C4. In the first, one sample is recorded (bucket 40) and the loop
  is left by \<^verbatim>\<open>is_sigint\<close> with \<^verbatim>\<open>irq_count\<close>, the only running count of the code,
  at 0. In the second, \<open>2 ^ 32\<close> samples go to the same bucket, a counter of 32 bits,
  which is back at 0.
\<close>

lemma sample_with_sigint:
  "measure_irqs \<lparr>irq_fgen = 1000, cmd_irq_count = 0\<rparr> 1000000
     (initial_arg \<lparr>irq_fgen = 1000, cmd_irq_count = 0\<rparr> 0) []
     [\<lparr>wait_ret = 0, wait_mask = 2, reg_start = 1000, reg_now = 1040, sigint = True\<rparr>]
   = (Break,
      \<lparr>cmd = \<lparr>irq_fgen = 1000, cmd_irq_count = 0\<rparr>,
       lat_hist = (replicate LAT_MAX_COUNT 0)[40 := 1], irq_count = 0, irq_missed = 0\<rparr>,
      [UirqWait 1000 0 2, Rd32 REG_BAR (REG_BASE + REG_START) 1000,
       Rd32 REG_BAR (REG_BASE + REG_NOW) 1040])
   \<and> hist_total ((replicate LAT_MAX_COUNT 0)[40 := 1]) + unat (0 :: size_t)
       \<noteq> unat (0 :: size_t)"
  by (simp add: measure_irqs_def initial_arg_def loop_body_def record_irq_def to_micros_def
      elapsed_ticks_def update_hist_def hist_total_single lat_defs Let_def)

lemma repeated_sample:
  assumes "wait_ret t \<noteq> - 1" and "wait_mask t \<noteq> 0" and "\<not> sigint t"
    and "cmd_irq_count c = 0"
    and "to_micros (elapsed_ticks (reg_start t) (reg_now t)) f = Some x"
    and "unat x < LAT_MAX_COUNT"
    and "unat x < length (lat_hist a)"
  shows "\<exists>tr'. irq_loop c f a tr (replicate n t) =
           (Pending,
            a\<lparr>lat_hist := (lat_hist a)[unat x := lat_hist a ! unat x + of_nat n],
              irq_count := irq_count a + of_nat n\<rparr>, tr')
         \<and> irq_waits tr' = irq_waits tr + n"
  using assms(7)
proof (induction n arbitrary: a tr)
  case 0
  then show ?case by simp
next
  case (Suc n)
  let ?a1 = "a\<lparr>lat_hist := (lat_hist a)[unat x := lat_hist a ! unat x + 1],
              irq_count := irq_count a + 1\<rparr>"
  let ?tr1 = "tr @ [UirqWait 1000 (wait_ret t) (wait_mask t),
                  Rd32 REG_BAR (REG_BASE + REG_START) (reg_start t),
                  Rd32 REG_BAR (REG_BASE + REG_NOW) (reg_now t)]"
  have b: "loop_body c f t a tr = (None, ?a1, ?tr1)"
    using assms(1-6)
    by (simp add: loop_body_def record_irq_def update_hist_def Let_def)
  have len: "unat x < length (lat_hist ?a1)"
    using Suc.prems by simp
  obtain tr' where r: "irq_loop c f ?a1 ?tr1 (replicate n t) =
           (Pending,
            ?a1\<lparr>lat_hist := (lat_hist ?a1)[unat x := lat_hist ?a1 ! unat x + of_nat n],
              irq_count := irq_count ?a1 + of_nat n\<rparr>, tr')"
     and w: "irq_waits tr' = irq_waits ?tr1 + n"
    using Suc.IH [OF len] by blast
  have w1: "irq_waits ?tr1 = irq_waits tr + 1"
    using assms(1,2) by (simp add: irq_waits_append)
  show ?case
    using b r w w1 Suc.prems by (intro exI [of _ tr']) (simp add: add.assoc)
qed

lemma bucket_wraps:
  "fst (measure_irqs \<lparr>irq_fgen = 1000, cmd_irq_count = 0\<rparr> 1000000
          (initial_arg \<lparr>irq_fgen = 1000, cmd_irq_count = 0\<rparr> 0) []
          (replicate (2 ^ 32)
             \<lparr>wait_ret = 0, wait_mask = 2, reg_start = 1000, reg_now = 1040, sigint = False\<rparr>))
     = Pending
   \<and> irq_waits (snd (snd (measure_irqs \<lparr>irq_fgen = 1000, cmd_irq_count = 0\<rparr> 1000000
          (initial_arg \<lparr>irq_fgen = 1000, cmd_irq_count = 0\<rparr> 0) []
          (replicate (2 ^ 32)
             \<lparr>wait_ret = 0, wait_mask = 2, reg_start = 1000, reg_now = 1040, sigint = False\<rparr>))))
     = 2 ^ 32
   \<and> hist_total (lat_hist (fst (snd (measure_irqs \<lparr>irq_fgen = 1000, cmd_irq_count = 0\<rparr> 1000000
          (initial_arg \<lparr>irq_fgen = 1000, cmd_irq_count = 0\<rparr> 0) []
          (replicate (2 ^ 32)
             \<lparr>wait_ret = 0, wait_mask = 2, reg_start = 1000, reg_now = 1040, sigint = False\<rparr>)))))
     + unat (irq_missed (fst (snd (measure_irqs \<lparr>irq_fgen = 1000, cmd_irq_count = 0\<rparr> 1000000
          (initial_arg \<lparr>irq_fgen = 1000, cmd_irq_count = 0\<rparr> 0) []
          (replicate (2 ^ 32)
             \<lparr>wait_ret = 0, wait_mask = 2, reg_start = 1000, reg_now = 1040, sigint = False\<rparr>)))))
     = 0"
proof -
  let ?c = "\<lparr>irq_fgen = 1000, cmd_irq_count = 0\<rparr>"
  let ?t = "\<lparr>wait_ret = 0, wait_mask = 2, reg_start = 1000, reg_now = 1040, sigint = False\<rparr>"
  let ?a = "(initial_arg ?c 0)\<lparr>irq_missed := 0, irq_count := 0\<rparr>"
  have m: "to_micros (elapsed_ticks (reg_start ?t) (reg_now ?t)) 1000000 = Some 40"
    by (simp add: to_micros_def elapsed_ticks_def)
  have l: "unat (40 :: u32) < LAT_MAX_COUNT" "unat (40 :: u32) < length (lat_hist ?a)"
    by (simp_all add: initial_arg_def lat_defs)
  obtain tr' where r: "irq_loop ?c 1000000 ?a [] (replicate (2 ^ 32) ?t) =
           (Pending,
            ?a\<lparr>lat_hist := (lat_hist ?a)[unat (40 :: u32) := lat_hist ?a ! unat (40 :: u32) + of_nat (2 ^ 32)],
              irq_count := irq_count ?a + of_nat (2 ^ 32)\<rparr>, tr')"
      and w: "irq_waits tr' = irq_waits [] + 2 ^ 32"
    using repeated_sample [of ?t ?c 1000000 40 ?a "[]" "2 ^ 32", OF _ _ _ _ m l] by auto
  have z: "of_nat (2 ^ 32) = (0 :: u32)"
    by simp
  have h: "lat_hist ?a ! unat (40 :: u32) + of_nat (2 ^ 32) = (0 :: u32)"
    unfolding z by (simp add: initial_arg_def lat_defs)
  have "hist_total ((lat_hist ?a)[unat (40 :: u32) := 0]) = 0"
    by (simp add: initial_arg_def hist_total_single lat_defs)
  then show ?thesis
    unfolding measure_irqs_def r h using w by simp
qed

text \<open>
  Claim C4 as stated fails. The code has no count of observed samples, and its
  \<^verbatim>\<open>irq_count\<close> is not the number of recorded samples (first run); after \<open>2 ^ 32\<close>
  recorded samples the sum of the buckets plus \<^verbatim>\<open>irq_missed\<close> is 0 (second run).
\<close>

theorem conservation_counterexample:
  "(measure_irqs \<lparr>irq_fgen = 1000, cmd_irq_count = 0\<rparr> 1000000
     (initial_arg \<lparr>irq_fgen = 1000, cmd_irq_count = 0\<rparr> 0) []
     [\<lparr>wait_ret = 0, wait_mask = 2, reg_start = 1000, reg_now = 1040, sigint = True\<rparr>]
   = (Break,
      \<lparr>cmd = \<lparr>irq_fgen = 1000, cmd_irq_count = 0\<rparr>,
       lat_hist = (replicate LAT_MAX_COUNT 0)[40 := 1], irq_count = 0, irq_missed = 0\<rparr>,
      [UirqWait 1000 0 2, Rd32 REG_BAR (REG_BASE + REG_START) 1000,
       Rd32 REG_BAR (REG_BASE + REG_NOW) 1040])
   \<and> hist_total ((replicate LAT_MAX_COUNT 0)[40 := 1]) + unat (0 :: size_t)
       \<noteq> unat (0 :: size_t))
   \<and> (fst (measure_irqs \<lparr>irq_fgen = 1000, cmd_irq_count = 0\<rparr> 1000000
          (initial_arg \<lparr>irq_fgen = 1000, cmd_irq_count = 0\<rparr> 0) []
          (replicate (2 ^ 32)
             \<lparr>wait_ret = 0, wait_mask = 2, reg_start = 1000, reg_now = 1040, sigint = False\<rparr>))
     = Pending
   \<and> irq_waits (snd (snd (measure_irqs \<lparr>irq_fgen = 1000, cmd_irq_count = 0\<rparr> 1000000
          (initial_arg \<lparr>irq_fgen = 1000, cmd_irq_count = 0\<rparr> 0) []
          (replicate (2 ^ 32)
             \<lparr>wait_ret = 0, wait_mask = 2, reg_start = 1000, reg_now = 1040, sigint = False\<rparr>))))
     = 2 ^ 32
   \<and> hist_total (lat_hist (fst (snd (measure_irqs \<lparr>irq_fgen = 1000, cmd_irq_count = 0\<rparr> 1000000
          (initial_arg \<lparr>irq_fgen = 1000, cmd_irq_count = 0\<rparr> 0) []
          (replicate (2 ^ 32)
             \<lparr>wait_ret = 0, wait_mask = 2, reg_start = 1000, reg_now = 1040, sigint = False\<rparr>)))))
     + unat (irq_missed (fst (snd (measure_irqs \<lparr>irq_fgen = 1000, cmd_irq_count = 0\<rparr> 1000000
          (initial_arg \<lparr>irq_fgen = 1000, cmd_irq_count = 0\<rparr> 0) []
          (replicate (2 ^ 32)
             \<lparr>wait_ret = 0, wait_mask = 2, reg_start = 1000, reg_now = 1040, sigint = False\<rparr>)))))
     = 0)"
  by (rule conjI [OF sample_with_sigint bucket_wraps])

text \<open>
  Claim C7 holds that an iteration whose wait returns the mask 0 leaves \<^verbatim>\<open>irq_count\<close>
  as it is. The code increments it: two wake-ups with the mask 0, the second seeing
  \<^verbatim>\<open>is_sigint\<close>, leave the loop with \<^verbatim>\<open>irq_count\<close> at 1, no sample read and the
  histogram empty.
\<close>

theorem empty_wakeup_increments_irq_count:
  "measure_irqs \<lparr>irq_fgen = 1000, cmd_irq_count = 0\<rparr> 1000000
     (initial_arg \<lparr>irq_fgen = 1000, cmd_irq_count = 0\<rparr> 0) []
     [\<lparr>wait_ret = 0, wait_mask = 0, reg_start = 0, reg_now = 0, sigint = False\<rparr>,
      \<lparr>wait_ret = 0, wait_mask = 0, reg_start = 0, reg_now = 0, sigint = True\<rparr>]
   = (Break,
      \<lparr>cmd = \<lparr>irq_fgen = 1000, cmd_irq_count = 0\<rparr>,
       lat_hist = replicate LAT_MAX_COUNT 0, irq_count = 1, irq_missed = 0\<rparr>,
      [UirqWait 1000 0 0, UirqWait 1000 0 0])"
  by (simp add: measure_irqs_def initial_arg_def loop_body_def Let_def)

text \<open>
  The part of claim C7 that the code does keep: such an iteration changes neither the
  histogram nor \<^verbatim>\<open>irq_missed\<close>, and reads no register.
\<close>

lemma empty_wakeup_keeps_histogram:
  assumes "loop_body c f t a tr = (x, a', tr')" and "wait_ret t \<noteq> - 1" and "wait_mask t = 0"
  shows "lat_hist a' = lat_hist a \<and> irq_missed a' = irq_missed a
         \<and> tr' = tr @ [UirqWait 1000 (wait_ret t) 0]"
  using assms by (auto simp: loop_body_def Let_def split: if_splits)

text \<open>
  The scenario of claim C1: a wait that always gives a mask that is not 0, an elapsed
  time of 500000 ticks, a clock of 1 MHz, no \<^verbatim>\<open>SIGINT\<close>.
\<close>

lemma scenario_body:
  assumes "wait_ret t \<noteq> - 1" "wait_mask t \<noteq> 0"
    and "elapsed_ticks (reg_start t) (reg_now t) = 500000" "\<not> sigint t"
  shows "loop_body c 1000000 t a tr =
     (if 0 < cmd_irq_count c \<and> irq_count a = ucast (cmd_irq_count c)
        then Some Break else None,
      if 0 < cmd_irq_count c \<and> irq_count a = ucast (cmd_irq_count c)
        then update_hist 500000 a
        else (update_hist 500000 a)\<lparr>irq_count := irq_count a + 1\<rparr>,
      tr @ [UirqWait 1000 (wait_ret t) (wait_mask t),
            Rd32 REG_BAR (REG_BASE + REG_START) (reg_start t),
            Rd32 REG_BAR (REG_BASE + REG_NOW) (reg_now t)])"
  using assms
  by (simp add: loop_body_def Let_def record_irq_def to_micros_def irq_count_update_hist)

lemma six_ticks:
  assumes "6 \<le> length (ts :: 'a list)"
  obtains t1 t2 t3 t4 t5 t6 rest where "ts = t1 # t2 # t3 # t4 # t5 # t6 # rest"
proof -
  obtain t1 r1 where 1: "ts = t1 # r1" using assms by (cases ts) auto
  obtain t2 r2 where 2: "r1 = t2 # r2" using assms 1 by (cases r1) auto
  obtain t3 r3 where 3: "r2 = t3 # r3" using assms 1 2 by (cases r2) auto
  obtain t4 r4 where 4: "r3 = t4 # r4" using assms 1 2 3 by (cases r3) auto
  obtain t5 r5 where 5: "r4 = t5 # r5" using assms 1 2 3 4 by (cases r4) auto
  obtain t6 r6 where 6: "r5 = t6 # r6" using assms 1 2 3 4 5 by (cases r5) auto
  show ?thesis using that 1 2 3 4 5 6 by simp
qed

text \<open>
  Claim C1, amended. With \<^verbatim>\<open>-count 5\<close>, in the scenario, the loop is left by the
  \<^verbatim>\<open>break\<close> of line 386 with \<^verbatim>\<open>irq_count\<close> at 5 and \<^verbatim>\<open>irq_missed\<close> at 0. 500000 ticks
  at 1 MHz are 500000 microseconds: every recorded sample is in the bucket of offset
  500000, which is not 0, every other bucket is 0, and so is the bucket of offset 500.
\<close>

theorem scenario_five_samples:
  assumes sc: "\<forall>t \<in> set ts. wait_ret t \<noteq> - 1 \<and> wait_mask t \<noteq> 0
                \<and> elapsed_ticks (reg_start t) (reg_now t) = 500000 \<and> \<not> sigint t"
    and len: "6 \<le> length ts"
    and cnt: "cmd_irq_count c = 5"
    and hist: "lat_hist arg = replicate LAT_MAX_COUNT 0"
  shows "\<exists>arg' tr' n. measure_irqs c 1000000 arg tr ts = (Break, arg', tr')
           \<and> irq_count arg' = 5 \<and> irq_missed arg' = 0
           \<and> lat_hist arg' = (replicate LAT_MAX_COUNT 0)[500000 := n] \<and> n \<noteq> 0
           \<and> lat_hist arg' ! 500 = 0"
proof -
  obtain t1 t2 t3 t4 t5 t6 rest where ts: "ts = t1 # t2 # t3 # t4 # t5 # t6 # rest"
    using len by (rule six_ticks)
  have s: "wait_ret t1 \<noteq> - 1" "wait_mask t1 \<noteq> 0" "elapsed_ticks (reg_start t1) (reg_now t1) = 500000" "\<not> sigint t1"
    "wait_ret t2 \<noteq> - 1" "wait_mask t2 \<noteq> 0" "elapsed_ticks (reg_start t2) (reg_now t2) = 500000" "\<not> sigint t2"
    "wait_ret t3 \<noteq> - 1" "wait_mask t3 \<noteq> 0" "elapsed_ticks (reg_start t3) (reg_now t3) = 500000" "\<not> sigint t3"
    "wait_ret t4 \<noteq> - 1" "wait_mask t4 \<noteq> 0" "elapsed_ticks (reg_start t4) (reg_now t4) = 500000" "\<not> sigint t4"
    "wait_ret t5 \<noteq> - 1" "wait_mask t5 \<noteq> 0" "elapsed_ticks (reg_start t5) (reg_now t5) = 500000" "\<not> sigint t5"
    "wait_ret t6 \<noteq> - 1" "wait_mask t6 \<noteq> 0" "elapsed_ticks (reg_start t6) (reg_now t6) = 500000" "\<not> sigint t6"
    using sc ts by simp_all
  have "\<exists>tr'. measure_irqs c 1000000 arg tr ts =
          (Break, arg\<lparr>irq_missed := 0, irq_count := 5,
                         lat_hist := (replicate LAT_MAX_COUNT 0)[500000 := 6]\<rparr>, tr')"
    unfolding ts measure_irqs_def
    by (simp add: scenario_body s cnt hist update_hist_def lat_defs)
  then obtain tr' where run:
    "measure_irqs c 1000000 arg tr ts =
          (Break, arg\<lparr>irq_missed := 0, irq_count := 5,
                         lat_hist := (replicate LAT_MAX_COUNT 0)[500000 := 6]\<rparr>, tr')"
    by blast
  have b: "(replicate LAT_MAX_COUNT (0 :: u32))[500000 := 6] ! 500 = 0"
    by (simp add: lat_defs)
  show ?thesis
    apply (rule exI [of _ "arg\<lparr>irq_missed := 0, irq_count := 5,
                         lat_hist := (replicate LAT_MAX_COUNT 0)[500000 := 6]\<rparr>"])
    apply (rule exI [of _ tr'])
    apply (rule exI [of _ 6])
    using run b by simp
qed

theorem scenario_five_samples_witness:
  "elapsed_ticks 1000 501000 = 500000
  \<and> 6 \<le> length (replicate 6 \<lparr>wait_ret = 0, wait_mask = 2, reg_start = 1000, reg_now = 501000, sigint = False\<rparr>)
  \<and> (\<exists>arg' tr' n. measure_irqs \<lparr>irq_fgen = 1000, cmd_irq_count = 5\<rparr> 1000000
          (initial_arg \<lparr>irq_fgen = 1000, cmd_irq_count = 5\<rparr> 0) []
          (replicate 6 \<lparr>wait_ret = 0, wait_mask = 2, reg_start = 1000, reg_now = 501000, sigint = False\<rparr>)
           = (Break, arg', tr')
           \<and> irq_count arg' = 5 \<and> irq_missed arg' = 0
           \<and> lat_hist arg' = (replicate LAT_MAX_COUNT 0)[500000 := n] \<and> n \<noteq> 0
           \<and> lat_hist arg' ! 500 = 0)"
proof -
  let ?t = "\<lparr>wait_ret = 0, wait_mask = 2, reg_start = 1000, reg_now = 501000, sigint = False\<rparr>"
  have h1: "\<forall>t \<in> set (replicate 6 ?t).
       wait_ret t \<noteq> - 1 \<and> wait_mask t \<noteq> 0
                \<and> elapsed_ticks (reg_start t) (reg_now t) = 500000 \<and> \<not> sigint t"
    by (simp add: elapsed_ticks_def)
  have h2: "6 \<le> length (replicate 6 ?t)" by simp
  have h3: "cmd_irq_count \<lparr>irq_fgen = 1000, cmd_irq_count = 5\<rparr> = 5" by simp
  have h4: "lat_hist (initial_arg \<lparr>irq_fgen = 1000, cmd_irq_count = 5\<rparr> 0) = replicate LAT_MAX_COUNT 0"
    by (simp add: initial_arg_def)
  show ?thesis
    using scenario_five_samples [OF h1 h2 h3 h4, of "[]"] h2 by (simp add: elapsed_ticks_def)
qed

text \<open>
  Claim C1 as stated fails: in the scenario, with seven answers at hand, the loop is left
  with \<^verbatim>\<open>irq_count\<close> at 5, and the bucket of offset 500 is 0, not 5.
\<close>

theorem scenario_bucket_500_counterexample:
  "measure_irqs \<lparr>irq_fgen = 1000, cmd_irq_count = 5\<rparr> 1000000
     (initial_arg \<lparr>irq_fgen = 1000, cmd_irq_count = 5\<rparr> 0) []
     [\<lparr>wait_ret = 0, wait_mask = 2, reg_start = 1000, reg_now = 501000, sigint = False\<rparr>,
      \<lparr>wait_ret = 0, wait_mask = 2, reg_start = 2000, reg_now = 502000, sigint = False\<rparr>,
      \<lparr>wait_ret = 0, wait_mask = 2, reg_start = 3000, reg_now = 503000, sigint = False\<rparr>,
      \<lparr>wait_ret = 0, wait_mask = 2, reg_start = 4000, reg_now = 504000, sigint = False\<rparr>,
      \<lparr>wait_ret = 0, wait_mask = 2, reg_start = 5000, reg_now = 505000, sigint = False\<rparr>,
      \<lparr>wait_ret = 0, wait_mask = 2, reg_start = 6000, reg_now = 506000, sigint = False\<rparr>,
      \<lparr>wait_ret = 0, wait_mask = 2, reg_start = 7000, reg_now = 507000, sigint = False\<rparr>]
   = (Break,
      \<lparr>cmd = \<lparr>irq_fgen = 1000, cmd_irq_count = 5\<rparr>,
       lat_hist = (replicate LAT_MAX_COUNT 0)[500000 := 6], irq_count = 5, irq_missed = 0\<rparr>,
      [UirqWait 1000 0 2, Rd32 REG_BAR (REG_BASE + REG_START) 1000, Rd32 REG_BAR (REG_BASE + REG_NOW) 501000,
       UirqWait 1000 0 2, Rd32 REG_BAR (REG_BASE + REG_START) 2000, Rd32 REG_BAR (REG_BASE + REG_NOW) 502000,
       UirqWait 1000 0 2, Rd32 REG_BAR (REG_BASE + REG_START) 3000, Rd32 REG_BAR (REG_BASE + REG_NOW) 503000,
       UirqWait 1000 0 2, Rd32 REG_BAR (REG_BASE + REG_START) 4000, Rd32 REG_BAR (REG_BASE + REG_NOW) 504000,
       UirqWait 1000 0 2, Rd32 REG_BAR (REG_BASE + REG_START) 5000, Rd32 REG_BAR (REG_BASE + REG_NOW) 505000,
       UirqWait 1000 0 2, Rd32 REG_BAR (REG_BASE + REG_START) 6000, Rd32 REG_BAR (REG_BASE + REG_NOW) 506000])
   \<and> (replicate LAT_MAX_COUNT (0 :: u32))[500000 := 6] ! 500 \<noteq> 5"
  by (simp add: measure_irqs_def initial_arg_def loop_body_def record_irq_def to_micros_def
        elapsed_ticks_def update_hist_def lat_defs Let_def)

text \<open>
  Claim C9. \<^verbatim>\<open>is_sigint\<close> is read once per iteration, at line 385. Let the flag be set
  after \<open>pre\<close> iterations have read it as 0, so that the next read, in the iteration
  with the answers \<open>t\<close>, sees it set. Then the loop is left in that iteration, by
  \<^verbatim>\<open>break\<close> or by a failed wait: what the outside world would answer later (\<open>rest\<close>)
  is never asked for, so no later iteration waits, reads a latency sample or updates the
  histogram. The run has called \<^verbatim>\<open>uirq_wait\<close> at most once more than the \<open>pre\<close>
  iterations before the flag was set, each time with a timeout of 1000 ms.
\<close>

theorem cancellation_leaves_loop:
  assumes "sigint t" and "f \<noteq> 0"
  shows "irq_loop c f a tr (pre @ t # rest) = irq_loop c f a tr (pre @ [t])
         \<and> fst (irq_loop c f a tr (pre @ [t])) \<in> {Break, WaitFailed}
         \<and> (\<exists>k \<le> length pre + 1.
               wait_timeouts (snd (snd (irq_loop c f a tr (pre @ [t]))))
               = wait_timeouts tr @ replicate k 1000)"
proof -
  obtain e a' tr' where r: "irq_loop c f a tr (pre @ [t]) = (e, a', tr')"
    by (cases "irq_loop c f a tr (pre @ [t])") auto
  obtain ext where ext: "tr' = tr @ ext" "list_all loop_event ext"
      "length (wait_timeouts ext) \<le> length (pre @ [t])"
    using irq_loop_trace [OF r assms(2)] by blast
  have "wait_timeouts tr' = wait_timeouts tr @ replicate (length (wait_timeouts ext)) 1000"
    using ext(1) loop_events_timeouts [OF ext(2)] by (simp add: wait_timeouts_append)
  then have "\<exists>k \<le> length pre + 1. wait_timeouts tr' = wait_timeouts tr @ replicate k 1000"
    using ext(3) by auto
  then show ?thesis
    using sigint_ignores_rest [OF assms(1), of c f a tr pre rest]
      sigint_leaves_loop [OF assms, of c a tr pre] r by simp
qed

theorem cancellation_leaves_loop_witness:
  "sigint \<lparr>wait_ret = 0, wait_mask = 2, reg_start = 10, reg_now = 50, sigint = True\<rparr>
   \<and> (1000000 :: u32) \<noteq> 0
   \<and> irq_loop \<lparr>irq_fgen = 1000, cmd_irq_count = 0\<rparr> 1000000
        (initial_arg \<lparr>irq_fgen = 1000, cmd_irq_count = 0\<rparr> 0) []
        ([\<lparr>wait_ret = 0, wait_mask = 0, reg_start = 0, reg_now = 0, sigint = False\<rparr>]
         @ \<lparr>wait_ret = 0, wait_mask = 2, reg_start = 10, reg_now = 50, sigint = True\<rparr>
         # [\<lparr>wait_ret = 0, wait_mask = 2, reg_start = 70, reg_now = 90, sigint = True\<rparr>])
      = irq_loop \<lparr>irq_fgen = 1000, cmd_irq_count = 0\<rparr> 1000000
        (initial_arg \<lparr>irq_fgen = 1000, cmd_irq_count = 0\<rparr> 0) []
        ([\<lparr>wait_ret = 0, wait_mask = 0, reg_start = 0, reg_now = 0, sigint = False\<rparr>]
         @ [\<lparr>wait_ret = 0, wait_mask = 2, reg_start = 10, reg_now = 50, sigint = True\<rparr>])
   \<and> fst (irq_loop \<lparr>irq_fgen = 1000, cmd_irq_count = 0\<rparr> 1000000
        (initial_arg \<lparr>irq_fgen = 1000, cmd_irq_count = 0\<rparr> 0) []
        ([\<lparr>wait_ret = 0, wait_mask = 0, reg_start = 0, reg_now = 0, sigint = False\<rparr>]
         @ [\<lparr>wait_ret = 0, wait_mask = 2, reg_start = 10, reg_now = 50, sigint = True\<rparr>]))
      \<in> {Break, WaitFailed}"
proof -
  have h1: "sigint \<lparr>wait_ret = 0, wait_mask = 2, reg_start = 10, reg_now = 50, sigint = True\<rparr>"
    by simp
  have h2: "(1000000 :: u32) \<noteq> 0"
    by simp
  show ?thesis
    using cancellation_leaves_loop [OF h1 h2] h1 h2 by blast
qed

section \<open>Claims on the realtime task\<close>

subsection \<open>The shape of a run\<close>

lemma rtask_main_opened:
  "session_opened env \<Longrightarrow>
   rtask_main env ts arg =
     (if magic env \<noteq> 0xbadcafee then on_error_3 (- 1) arg (setup_trace env @ [PError 310])
      else start_and_measure env ts arg (setup_trace env))"
  by (simp add: session_opened_def rtask_main_def enable_ebone_slave_interrupt_def
      open_and_check_def setup_trace_def Let_def)

lemma loop_events_no_perror_340: "list_all loop_event ext \<Longrightarrow> PError 340 \<notin> set ext"
  by (induction ext) auto

lemma irq_loop_exit:
  "irq_loop c f a tr ts = (e, a', tr') \<Longrightarrow> f \<noteq> 0 \<Longrightarrow> e \<noteq> DivTrap"
proof (induction ts arbitrary: a tr)
  case Nil
  then show ?case by auto
next
  case (Cons t ts)
  obtain x a1 tr1 where b: "loop_body c f t a tr = (x, a1, tr1)"
    by (cases "loop_body c f t a tr") auto
  show ?case
  proof (cases x)
    case None
    then show ?thesis using b Cons by simp
  next
    case (Some e0)
    then have "e = e0" using b Cons.prems(1) by simp
    then show ?thesis using b Some loop_body_exits [of c f t a tr e0 a1 tr1] Cons.prems(2) by auto
  qed
qed

lemma measure_irqs_trace:
  assumes "measure_irqs c f a tr ts = (e, a', tr')" and "f \<noteq> 0"
  shows "\<exists>ext. tr' = tr @ ext \<and> list_all loop_event ext"
  using irq_loop_trace [of c f "a\<lparr>irq_missed := 0, irq_count := 0\<rparr>" tr ts e a' tr'] assms
  by (auto simp: measure_irqs_def)

lemma measure_irqs_exit:
  assumes "measure_irqs c f a tr ts = (e, a', tr')" and "f \<noteq> 0"
  shows "e \<noteq> DivTrap"
  using irq_loop_exit [of c f "a\<lparr>irq_missed := 0, irq_count := 0\<rparr>" tr ts e a' tr'] assms
  by (auto simp: measure_irqs_def)

text \<open>The shape of a run that gets to the start of the generator.\<close>

lemma start_and_measure_started:
  assumes "irq_fgen (cmd arg) \<noteq> 0" and "fclk env div irq_fgen (cmd arg) \<noteq> 0"
  obtains ext where "list_all loop_event ext"
    and "res_trace (start_and_measure env ts arg tr) =
           tr @ [Rd32 REG_BAR (REG_BASE + REG_FCLK) (fclk env),
                 Wr32 REG_BAR (REG_BASE + REG_CTL) (push_bit 31 1 OR fclk env div irq_fgen (cmd arg))]
              @ ext
              @ (if res_status (start_and_measure env ts arg tr) = Running then []
                 else [Wr32 REG_BAR (REG_BASE + REG_CTL) 0, EpciClose REG_BAR, UirqClose])"
    and "res_status (start_and_measure env ts arg tr) \<in> {Running, Returned 0, Returned (- 1)}"
proof -
  let ?tr2 = "tr @ [Rd32 REG_BAR (REG_BASE + REG_FCLK) (fclk env),
                 Wr32 REG_BAR (REG_BASE + REG_CTL) (push_bit 31 1 OR fclk env div irq_fgen (cmd arg))]"
  have f: "fclk env \<noteq> 0" using assms(2) by auto
  obtain e a' tr' where m: "measure_irqs (cmd arg) (fclk env) arg ?tr2 ts = (e, a', tr')"
    by (cases "measure_irqs (cmd arg) (fclk env) arg ?tr2 ts") auto
  obtain ext where ext: "tr' = ?tr2 @ ext" "list_all loop_event ext"
    using measure_irqs_trace [OF m f] by blast
  have ne: "e \<noteq> DivTrap" using m f by (rule measure_irqs_exit)
  show ?thesis
    using that [of ext] assms m ext ne
    by (cases e) (simp_all add: start_and_measure_def Let_def on_error_3_def on_error_2_def
        on_error_1_def on_error_0_def)
qed

lemma events_after_append_notin:
  "e \<notin> set xs \<Longrightarrow> events_after e (xs @ e # ys) = ys"
  by (induction xs) auto

lemma perror_310_notin_setup: "PError 310 \<notin> set (setup_trace env)"
  by (simp add: setup_trace_def)

lemma perror_340_notin_setup: "PError 340 \<notin> set (setup_trace env)"
  by (simp add: setup_trace_def)

lemma ctl_writes_setup: "ctl_writes (setup_trace env) = []"
  by (simp add: setup_trace_def reg_defs)

lemma released_setup:
  "released_in_reverse [] (setup_trace env @ es) = released_in_reverse [EpciSession REG_BAR, UirqSession] es"
  by (simp add: setup_trace_def)

subsection \<open>The magic number\<close>

text \<open>
  Claim C5, amended. When the register session is open and \<^verbatim>\<open>REG_MAGIC\<close> does not read
  \<^verbatim>\<open>0xbadcafee\<close>, the task returns -1 after the \<^verbatim>\<open>PERROR()\<close> of line 310, with its
  argument untouched. What follows the failed check is the clean-up of \<^verbatim>\<open>on_error_3\<close>:
  the write of 0 to \<^verbatim>\<open>REG_CTL\<close>, then the two closes. That write is the only write to
  \<^verbatim>\<open>REG_CTL\<close> of the run: the generator is never started.
\<close>

theorem identity_mismatch_disarms:
  assumes "session_opened env" and "magic env \<noteq> 0xbadcafee"
  shows "res_status (rtask_main env ts arg) = Returned (- 1)
         \<and> res_arg (rtask_main env ts arg) = arg
         \<and> PError 310 \<in> set (res_trace (rtask_main env ts arg))
         \<and> events_after (PError 310) (res_trace (rtask_main env ts arg))
             = [Wr32 REG_BAR (REG_BASE + REG_CTL) 0, EpciClose REG_BAR, UirqClose]
         \<and> ctl_writes (res_trace (rtask_main env ts arg)) = [0]"
proof -
  have r: "rtask_main env ts arg =
      \<lparr>res_status = Returned (- 1), res_arg = arg,
       res_trace = setup_trace env
         @ PError 310 # [Wr32 REG_BAR (REG_BASE + REG_CTL) 0, EpciClose REG_BAR, UirqClose]\<rparr>"
    using assms
    by (simp add: rtask_main_opened on_error_3_def on_error_2_def on_error_1_def on_error_0_def)
  have c: "ctl_writes (setup_trace env) = []"
    by (simp add: setup_trace_def reg_defs)
  show ?thesis
    unfolding r using events_after_append_notin [OF perror_310_notin_setup] c
    by (simp add: ctl_writes_append)
qed

theorem identity_mismatch_disarms_witness:
  "session_opened \<lparr>bar0_open_ok = True, bar0_ctl = 0, uirq_init_ok = True, uirq_open_ok = True,
      uirq_set_mask_ok = True, epci_open_ok = True, magic = 0x12345678, fclk = 1000000\<rparr>
   \<and> (0x12345678 :: u32) \<noteq> 0xbadcafee
   \<and> res_status (rtask_main \<lparr>bar0_open_ok = True, bar0_ctl = 0, uirq_init_ok = True,
        uirq_open_ok = True, uirq_set_mask_ok = True, epci_open_ok = True, magic = 0x12345678,
        fclk = 1000000\<rparr> [] (initial_arg \<lparr>irq_fgen = 1000, cmd_irq_count = 0\<rparr> 0))
      = Returned (- 1)"
proof -
  let ?env = "\<lparr>bar0_open_ok = True, bar0_ctl = 0, uirq_init_ok = True, uirq_open_ok = True,
      uirq_set_mask_ok = True, epci_open_ok = True, magic = 0x12345678, fclk = 1000000\<rparr>"
  have h1: "session_opened ?env"
    by (simp add: session_opened_def)
  have h2: "magic ?env \<noteq> 0xbadcafee"
    by simp
  show ?thesis
    using identity_mismatch_disarms [OF h1 h2] h1 h2 by simp
qed

text \<open>
  Claim C5 as stated fails: with a device whose magic number is \<^verbatim>\<open>0x12345678\<close>, a
  register write follows the failed check, the write of 0 to \<^verbatim>\<open>REG_CTL\<close>.
\<close>

theorem write_after_mismatch_counterexample:
  "res_status (rtask_main \<lparr>bar0_open_ok = True, bar0_ctl = 0, uirq_init_ok = True,
        uirq_open_ok = True, uirq_set_mask_ok = True, epci_open_ok = True, magic = 0x12345678,
        fclk = 1000000\<rparr> [] (initial_arg \<lparr>irq_fgen = 1000, cmd_irq_count = 0\<rparr> 0))
      = Returned (- 1)
   \<and> reg_writes (events_after (PError 310)
        (res_trace (rtask_main \<lparr>bar0_open_ok = True, bar0_ctl = 0, uirq_init_ok = True,
          uirq_open_ok = True, uirq_set_mask_ok = True, epci_open_ok = True, magic = 0x12345678,
          fclk = 1000000\<rparr> [] (initial_arg \<lparr>irq_fgen = 1000, cmd_irq_count = 0\<rparr> 0))))
      = [(REG_BAR, REG_BASE + REG_CTL, 0)]"
  by (simp add: rtask_main_def enable_ebone_slave_interrupt_def open_and_check_def Let_def
      on_error_3_def on_error_2_def on_error_1_def on_error_0_def)

subsection \<open>The divider\<close>

text \<open>
  Claim C6, amended. For every clock and every requested frequency that is not 0 (the
  division of line 337 is undefined for 0), the task fails at line 340 if and only if
  the quotient \<^verbatim>\<open>irq_fclk / cmd->irq_fgen\<close> is 0. On that branch it returns -1 and its
  only write to \<^verbatim>\<open>REG_CTL\<close> is the 0 of the clean-up. Otherwise its first write to
  \<^verbatim>\<open>REG_CTL\<close> is \<^verbatim>\<open>(1 << 31) | x\<close>, followed by nothing but the 0 of the clean-up;
  bit 31 of that value is set, and its low 24 bits are the quotient when the quotient is
  below \<open>2 ^ 24\<close>.
\<close>

theorem divider_underflow_iff:
  assumes "session_opened env" and "magic env = 0xbadcafee" and "irq_fgen (cmd arg) \<noteq> 0"
  shows "(PError 340 \<in> set (res_trace (rtask_main env ts arg)))
           = (fclk env div irq_fgen (cmd arg) = 0)
         \<and> (fclk env div irq_fgen (cmd arg) = 0 \<longrightarrow>
              res_status (rtask_main env ts arg) = Returned (- 1)
              \<and> ctl_writes (res_trace (rtask_main env ts arg)) = [0])
         \<and> (fclk env div irq_fgen (cmd arg) \<noteq> 0 \<longrightarrow>
              (\<exists>rest. ctl_writes (res_trace (rtask_main env ts arg))
                        = (push_bit 31 1 OR fclk env div irq_fgen (cmd arg)) # rest
                      \<and> set rest \<subseteq> {0})
              \<and> bit (push_bit 31 1 OR fclk env div irq_fgen (cmd arg)) 31
              \<and> (fclk env div irq_fgen (cmd arg) < 2 ^ 24 \<longrightarrow>
                   take_bit 24 (push_bit 31 1 OR fclk env div irq_fgen (cmd arg))
                   = fclk env div irq_fgen (cmd arg)))"
proof (cases "fclk env div irq_fgen (cmd arg) = 0")
  case True
  have "rtask_main env ts arg =
      \<lparr>res_status = Returned (- 1), res_arg = arg,
       res_trace = setup_trace env
         @ [Rd32 REG_BAR (REG_BASE + REG_FCLK) (fclk env), PError 340,
            Wr32 REG_BAR (REG_BASE + REG_CTL) 0, EpciClose REG_BAR, UirqClose]\<rparr>"
    using assms True
    by (simp add: rtask_main_opened start_and_measure_def Let_def on_error_3_def on_error_2_def
        on_error_1_def on_error_0_def)
  then show ?thesis
    using True by (simp add: ctl_writes_append ctl_writes_setup)
next
  case False
  let ?q = "fclk env div irq_fgen (cmd arg)"
  let ?r = "start_and_measure env ts arg (setup_trace env)"
  have r: "rtask_main env ts arg = ?r"
    using assms by (simp add: rtask_main_opened)
  obtain ext where ext: "list_all loop_event ext"
    and tr: "res_trace ?r =
           setup_trace env @ [Rd32 REG_BAR (REG_BASE + REG_FCLK) (fclk env),
                 Wr32 REG_BAR (REG_BASE + REG_CTL) (push_bit 31 1 OR ?q)]
              @ ext
              @ (if res_status ?r = Running then []
                 else [Wr32 REG_BAR (REG_BASE + REG_CTL) 0, EpciClose REG_BAR, UirqClose])"
    using start_and_measure_started [OF assms(3) False, of ts "setup_trace env"] by blast
  have p: "PError 340 \<notin> set (res_trace ?r)"
    unfolding tr using perror_340_notin_setup loop_events_no_perror_340 [OF ext] by simp
  have c: "\<exists>rest. ctl_writes (res_trace ?r) = (push_bit 31 1 OR ?q) # rest \<and> set rest \<subseteq> {0}"
    unfolding tr
    by (simp add: ctl_writes_append ctl_writes_setup loop_events_no_ctl_writes [OF ext])
  have b: "bit (push_bit 31 1 OR ?q) 31"
    by (simp add: bit_or_iff bit_push_bit_iff)
  have t: "?q < 2 ^ 24 \<longrightarrow> take_bit 24 (push_bit 31 1 OR ?q) = ?q"
  proof
    assume "?q < 2 ^ 24"
    then have "take_bit 24 ?q = ?q"
      using less_mask_eq [of ?q 24] by (simp add: take_bit_eq_mask)
    then show "take_bit 24 (push_bit 31 1 OR ?q) = ?q"
      by (simp add: take_bit_push_bit)
  qed
  show ?thesis
    unfolding r using False p c b t by simp
qed

theorem divider_underflow_iff_witness:
  "session_opened \<lparr>bar0_open_ok = True, bar0_ctl = 0, uirq_init_ok = True, uirq_open_ok = True,
      uirq_set_mask_ok = True, epci_open_ok = True, magic = 0xbadcafee, fclk = 1000\<rparr>
   \<and> irq_fgen (cmd (initial_arg \<lparr>irq_fgen = 2000, cmd_irq_count = 0\<rparr> 0)) \<noteq> 0
   \<and> (1000 :: u32) div 2000 = 0
   \<and> res_status (rtask_main \<lparr>bar0_open_ok = True, bar0_ctl = 0, uirq_init_ok = True,
        uirq_open_ok = True, uirq_set_mask_ok = True, epci_open_ok = True, magic = 0xbadcafee,
        fclk = 1000\<rparr> [] (initial_arg \<lparr>irq_fgen = 2000, cmd_irq_count = 0\<rparr> 0))
      = Returned (- 1)
   \<and> ctl_writes (res_trace (rtask_main \<lparr>bar0_open_ok = True, bar0_ctl = 0, uirq_init_ok = True,
        uirq_open_ok = True, uirq_set_mask_ok = True, epci_open_ok = True, magic = 0xbadcafee,
        fclk = 1000\<rparr> [] (initial_arg \<lparr>irq_fgen = 2000, cmd_irq_count = 0\<rparr> 0)))
      = [0]
   \<and> (1000000 :: u32) div 1000 = 1000
   \<and> ctl_writes (res_trace (rtask_main \<lparr>bar0_open_ok = True, bar0_ctl = 0, uirq_init_ok = True,
        uirq_open_ok = True, uirq_set_mask_ok = True, epci_open_ok = True, magic = 0xbadcafee,
        fclk = 1000000\<rparr> [] (initial_arg \<lparr>irq_fgen = 1000, cmd_irq_count = 0\<rparr> 0)))
      = [0x800003E8]
   \<and> take_bit 24 (0x800003E8 :: u32) = 1000"
proof -
  let ?env = "\<lparr>bar0_open_ok = True, bar0_ctl = 0, uirq_init_ok = True, uirq_open_ok = True,
      uirq_set_mask_ok = True, epci_open_ok = True, magic = 0xbadcafee, fclk = 1000\<rparr>"
  let ?arg = "initial_arg \<lparr>irq_fgen = 2000, cmd_irq_count = 0\<rparr> 0"
  have h1: "session_opened ?env"
    by (simp add: session_opened_def)
  have h2: "magic ?env = 0xbadcafee"
    by simp
  have h3: "irq_fgen (cmd ?arg) \<noteq> 0"
    by (simp add: initial_arg_def)
  have q: "fclk ?env div irq_fgen (cmd ?arg) = 0"
    by (simp add: initial_arg_def)
  have started: "ctl_writes (res_trace (rtask_main \<lparr>bar0_open_ok = True, bar0_ctl = 0,
        uirq_init_ok = True, uirq_open_ok = True, uirq_set_mask_ok = True, epci_open_ok = True,
        magic = 0xbadcafee, fclk = 1000000\<rparr> []
        (initial_arg \<lparr>irq_fgen = 1000, cmd_irq_count = 0\<rparr> 0)))
      = [0x800003E8]"
    by (simp add: rtask_main_def enable_ebone_slave_interrupt_def open_and_check_def
        start_and_measure_def measure_irqs_def initial_arg_def Let_def reg_defs)
  show ?thesis
    using divider_underflow_iff [OF h1 h2 h3, of "[]"] h1 h3 q started by simp
qed

text \<open>
  Claim C6 as stated fails: at a clock of 125 MHz and a requested frequency of 1 Hz the
  quotient 125000000 does not fit 24 bits. The value written is \<^verbatim>\<open>0x87735940\<close>, whose
  low 24 bits are not the quotient.
\<close>

theorem divider_above_24_bits_counterexample:
  "(125000000 :: u32) div 1 \<noteq> 0
   \<and> ctl_writes (res_trace (rtask_main \<lparr>bar0_open_ok = True, bar0_ctl = 0, uirq_init_ok = True,
        uirq_open_ok = True, uirq_set_mask_ok = True, epci_open_ok = True, magic = 0xbadcafee,
        fclk = 125000000\<rparr>
        [\<lparr>wait_ret = 0, wait_mask = 0, reg_start = 0, reg_now = 0, sigint = True\<rparr>]
        (initial_arg \<lparr>irq_fgen = 1, cmd_irq_count = 0\<rparr> 0)))
      = [0x87735940, 0]
   \<and> take_bit 24 (0x87735940 :: u32) \<noteq> 125000000 div 1"
  by (simp add: rtask_main_def enable_ebone_slave_interrupt_def open_and_check_def
      start_and_measure_def measure_irqs_def loop_body_def initial_arg_def Let_def
      on_error_3_def on_error_2_def on_error_1_def on_error_0_def reg_defs)

subsection \<open>The clean-up\<close>

text \<open>
  Claim C8, amended. On every path by which the task returns, the sessions it has opened
  are closed in the reverse of the order in which they were opened, and none is left
  open. When the register session was opened, the last three calls of the task are the
  write of 0 to \<^verbatim>\<open>REG_CTL\<close>, the close of the register session and the close of the
  interrupt session. When it was not, the task writes nothing to \<^verbatim>\<open>REG_CTL\<close>.
\<close>

theorem cleanup_on_return:
  assumes "res_status (rtask_main env ts arg) = Returned err"
  shows "released_in_reverse [] (res_trace (rtask_main env ts arg))
         \<and> (if session_opened env
             then \<exists>pre. res_trace (rtask_main env ts arg)
                         = pre @ [Wr32 REG_BAR (REG_BASE + REG_CTL) 0, EpciClose REG_BAR, UirqClose]
             else ctl_writes (res_trace (rtask_main env ts arg)) = [])"
proof (cases "session_opened env")
  case False
  then show ?thesis
    by (auto simp: session_opened_def rtask_main_def enable_ebone_slave_interrupt_def
        open_and_check_def Let_def on_error_2_def on_error_1_def on_error_0_def reg_defs)
next
  case opened: True
  show ?thesis
  proof (cases "magic env \<noteq> 0xbadcafee")
    case True
    have "rtask_main env ts arg =
      \<lparr>res_status = Returned (- 1), res_arg = arg,
       res_trace = setup_trace env
         @ [PError 310, Wr32 REG_BAR (REG_BASE + REG_CTL) 0, EpciClose REG_BAR, UirqClose]\<rparr>"
      using opened True
      by (simp add: rtask_main_opened on_error_3_def on_error_2_def on_error_1_def on_error_0_def)
    then show ?thesis
      using opened by (simp add: released_setup)
  next
    case False
    let ?r = "start_and_measure env ts arg (setup_trace env)"
    have r: "rtask_main env ts arg = ?r"
      using opened False by (simp add: rtask_main_opened)
    have ret: "res_status ?r = Returned err"
      using assms r by simp
    have fgen: "irq_fgen (cmd arg) \<noteq> 0"
      using ret by (auto simp: start_and_measure_def Let_def)
    show ?thesis
    proof (cases "fclk env div irq_fgen (cmd arg) = 0")
      case True
      have "?r =
        \<lparr>res_status = Returned (- 1), res_arg = arg,
         res_trace = setup_trace env
           @ [Rd32 REG_BAR (REG_BASE + REG_FCLK) (fclk env), PError 340,
              Wr32 REG_BAR (REG_BASE + REG_CTL) 0, EpciClose REG_BAR, UirqClose]\<rparr>"
        using fgen True
        by (simp add: start_and_measure_def Let_def on_error_3_def on_error_2_def
            on_error_1_def on_error_0_def)
      then show ?thesis
        unfolding r using opened by (simp add: released_setup)
    next
      case q: False
      obtain ext where ext: "list_all loop_event ext"
        and tr: "res_trace ?r =
           setup_trace env @ [Rd32 REG_BAR (REG_BASE + REG_FCLK) (fclk env),
                 Wr32 REG_BAR (REG_BASE + REG_CTL)
                   (push_bit 31 1 OR fclk env div irq_fgen (cmd arg))]
              @ ext
              @ (if res_status ?r = Running then []
                 else [Wr32 REG_BAR (REG_BASE + REG_CTL) 0, EpciClose REG_BAR, UirqClose])"
        using start_and_measure_started [OF fgen q, of ts "setup_trace env"] by blast
      have tr': "res_trace ?r =
           (setup_trace env @ [Rd32 REG_BAR (REG_BASE + REG_FCLK) (fclk env),
                 Wr32 REG_BAR (REG_BASE + REG_CTL)
                   (push_bit 31 1 OR fclk env div irq_fgen (cmd arg))]
              @ ext)
              @ [Wr32 REG_BAR (REG_BASE + REG_CTL) 0, EpciClose REG_BAR, UirqClose]"
        using tr ret by simp
      have rel: "released_in_reverse [] (res_trace ?r)"
        unfolding tr using ret
        by (simp add: released_setup loop_events_released [OF ext])
      have "\<exists>pre. res_trace ?r
                   = pre @ [Wr32 REG_BAR (REG_BASE + REG_CTL) 0, EpciClose REG_BAR, UirqClose]"
        using tr' by (rule exI)
      then show ?thesis
        unfolding r using opened rel by simp
    qed
  qed
qed

theorem cleanup_on_return_witness:
  "res_status (rtask_main \<lparr>bar0_open_ok = True, bar0_ctl = 0, uirq_init_ok = True,
        uirq_open_ok = True, uirq_set_mask_ok = True, epci_open_ok = True, magic = 0xbadcafee,
        fclk = 1000000\<rparr>
        [\<lparr>wait_ret = - 1, wait_mask = 0, reg_start = 0, reg_now = 0, sigint = False\<rparr>]
        (initial_arg \<lparr>irq_fgen = 1000, cmd_irq_count = 0\<rparr> 0)) = Returned (- 1)
   \<and> released_in_reverse [] (res_trace (rtask_main \<lparr>bar0_open_ok = True, bar0_ctl = 0,
        uirq_init_ok = True, uirq_open_ok = True, uirq_set_mask_ok = True, epci_open_ok = True,
        magic = 0xbadcafee, fclk = 1000000\<rparr>
        [\<lparr>wait_ret = - 1, wait_mask = 0, reg_start = 0, reg_now = 0, sigint = False\<rparr>]
        (initial_arg \<lparr>irq_fgen = 1000, cmd_irq_count = 0\<rparr> 0)))"
proof -
  let ?env = "\<lparr>bar0_open_ok = True, bar0_ctl = 0, uirq_init_ok = True,
        uirq_open_ok = True, uirq_set_mask_ok = True, epci_open_ok = True, magic = 0xbadcafee,
        fclk = 1000000\<rparr>"
  let ?ts = "[\<lparr>wait_ret = - 1, wait_mask = 0, reg_start = 0, reg_now = 0, sigint = False\<rparr>]"
  let ?arg = "initial_arg \<lparr>irq_fgen = 1000, cmd_irq_count = 0\<rparr> 0"
  have h: "res_status (rtask_main ?env ?ts ?arg) = Returned (- 1)"
    by (simp add: rtask_main_def enable_ebone_slave_interrupt_def open_and_check_def
        start_and_measure_def measure_irqs_def loop_body_def initial_arg_def Let_def
        on_error_3_def on_error_2_def on_error_1_def on_error_0_def)
  show ?thesis
    using cleanup_on_return [OF h] h by blast
qed

text \<open>
  Claim C8 as stated fails: when \<^verbatim>\<open>epci_open\<close> gives no handle for the register
  session, the task returns -1 through \<^verbatim>\<open>on_error_2\<close>. The interrupt session is closed,
  and nothing is written to \<^verbatim>\<open>REG_CTL\<close>.
\<close>

theorem no_disarm_before_session_counterexample:
  "rtask_main \<lparr>bar0_open_ok = True, bar0_ctl = 0, uirq_init_ok = True,
        uirq_open_ok = True, uirq_set_mask_ok = True, epci_open_ok = False, magic = 0xbadcafee,
        fclk = 1000000\<rparr> [] (initial_arg \<lparr>irq_fgen = 1000, cmd_irq_count = 0\<rparr> 0)
   = \<lparr>res_status = Returned (- 1),
      res_arg = initial_arg \<lparr>irq_fgen = 1000, cmd_irq_count = 0\<rparr> 0,
      res_trace = [EpciOpen 0 True, Rd32 0 0 0, Wr32 0 0 0x80000200, EpciClose 0,
                   UirqInitLib True, UirqOpen True, UirqSetMask 2 1 True, SignalSigint,
                   EpciOpen REG_BAR False, PError 301, UirqClose]\<rparr>
   \<and> ctl_writes [EpciOpen 0 True, Rd32 0 0 0, Wr32 0 0 0x80000200, EpciClose 0,
                   UirqInitLib True, UirqOpen True, UirqSetMask 2 1 True, SignalSigint,
                   EpciOpen REG_BAR False, PError 301, UirqClose] = []"
  by (simp add: rtask_main_def enable_ebone_slave_interrupt_def open_and_check_def Let_def
      on_error_2_def on_error_1_def on_error_0_def reg_defs)

section \<open>Claims on the report\<close>

text \<open>
  The loop of lines 434 to 438 prints the lines of the specification: one line for each
  bucket that is not 0, by ascending offset.
\<close>

lemma report_loop_lines:
  "i \<le> LAT_MAX_COUNT \<Longrightarrow>
   report_loop h i = map (\<lambda>i. dec i @ '' '' @ dec (unat (h ! i)))
                       (filter (\<lambda>i. h ! i \<noteq> 0) [i..<LAT_MAX_COUNT])"
proof (induction h i rule: report_loop.induct)
  case (1 h i)
  show ?case
  proof (cases "i < LAT_MAX_COUNT")
    case True
    then have "report_loop h (i + 1) = map (\<lambda>i. dec i @ '' '' @ dec (unat (h ! i)))
                       (filter (\<lambda>i. h ! i \<noteq> 0) [i + 1..<LAT_MAX_COUNT])"
      using "1.IH" by simp
    moreover have "[i..<LAT_MAX_COUNT] = i # [i + 1..<LAT_MAX_COUNT]"
      using True by (simp add: upt_conv_Cons)
    ultimately show ?thesis
      using True by (subst report_loop.simps) (simp add: LAT_RES_US_def)
  next
    case False
    then show ?thesis
      by (subst report_loop.simps) simp
  qed
qed

lemma report_refines_spec: "report arg = report_spec arg"
  by (simp add: report_def report_spec_def report_loop_lines)

text \<open>
  Claim C10. When the command line is accepted and the histogram allocated, the task is
  launched; when \<^verbatim>\<open>main\<close> then returns \<open>err\<close>, this is what the task has left in
  \<^verbatim>\<open>rtask->err\<close>, 0 or -1, and the standard output is what the \<^verbatim>\<open>PERROR()\<close> of the
  task have printed, followed by the two summary lines and by one line \<open>offset count\<close>
  for each bucket that is not 0, by ascending offset. The counts printed are those the
  task has left in its argument, whether it returned 0 or -1.
\<close>

theorem report_printed_on_termination:
  assumes "get_cmdline (strtoul_fn w) av = Some c"
    and "malloc_ok w"
    and "exit_status (main w av) = Returned err"
  shows "res_status (rtask_run w (initial_arg c (stack_irq_missed w))) = Returned err
         \<and> stdout (main w av)
             = perror_lines (res_trace (rtask_run w (initial_arg c (stack_irq_missed w))))
               @ report_spec (res_arg (rtask_run w (initial_arg c (stack_irq_missed w))))"
proof -
  let ?r = "rtask_run w (initial_arg c (stack_irq_missed w))"
  show ?thesis
  proof (cases "res_status ?r")
    case (Returned e)
    then show ?thesis
      using assms by (simp add: main_def Let_def report_refines_spec)
  next
    case Running
    then show ?thesis
      using assms by (simp add: main_def Let_def)
  next
    case Trapped
    then show ?thesis
      using assms by (simp add: main_def Let_def)
  qed
qed

theorem report_printed_on_termination_witness:
  "get_cmdline (\<lambda>s b. 0) [''-count'', ''0''] = Some \<lparr>irq_fgen = 1000, cmd_irq_count = 0\<rparr>
   \<and> exit_status (main \<lparr>strtoul_fn = \<lambda>s b. 0, malloc_ok = True, stack_irq_missed = 7,
        sched_ok = True,
        task_env = \<lparr>bar0_open_ok = True, bar0_ctl = 0, uirq_init_ok = True, uirq_open_ok = True,
          uirq_set_mask_ok = True, epci_open_ok = True, magic = 0xbadcafee, fclk = 1000000\<rparr>,
        ticks = [\<lparr>wait_ret = 0, wait_mask = 2, reg_start = 1000, reg_now = 1040, sigint = False\<rparr>,
                 \<lparr>wait_ret = - 1, wait_mask = 0, reg_start = 0, reg_now = 0, sigint = False\<rparr>]\<rparr>
        [''-count'', ''0'']) = Returned (- 1)
   \<and> stdout (main \<lparr>strtoul_fn = \<lambda>s b. 0, malloc_ok = True, stack_irq_missed = 7,
        sched_ok = True,
        task_env = \<lparr>bar0_open_ok = True, bar0_ctl = 0, uirq_init_ok = True, uirq_open_ok = True,
          uirq_set_mask_ok = True, epci_open_ok = True, magic = 0xbadcafee, fclk = 1000000\<rparr>,
        ticks = [\<lparr>wait_ret = 0, wait_mask = 2, reg_start = 1000, reg_now = 1040, sigint = False\<rparr>,
                 \<lparr>wait_ret = - 1, wait_mask = 0, reg_start = 0, reg_now = 0, sigint = False\<rparr>]\<rparr>
        [''-count'', ''0''])
      = [''[!] main.c,352'']
        @ report_spec \<lparr>cmd = \<lparr>irq_fgen = 1000, cmd_irq_count = 0\<rparr>,
            lat_hist = (replicate LAT_MAX_COUNT 0)[40 := 1], irq_count = 1, irq_missed = 0\<rparr>"
proof -
  let ?w = "\<lparr>strtoul_fn = \<lambda>s b. 0, malloc_ok = True, stack_irq_missed = 7,
        sched_ok = True,
        task_env = \<lparr>bar0_open_ok = True, bar0_ctl = 0, uirq_init_ok = True, uirq_open_ok = True,
          uirq_set_mask_ok = True, epci_open_ok = True, magic = 0xbadcafee, fclk = 1000000\<rparr>,
        ticks = [\<lparr>wait_ret = 0, wait_mask = 2, reg_start = 1000, reg_now = 1040, sigint = False\<rparr>,
                 \<lparr>wait_ret = - 1, wait_mask = 0, reg_start = 0, reg_now = 0, sigint = False\<rparr>]\<rparr>"
  let ?c = "\<lparr>irq_fgen = 1000, cmd_irq_count = 0\<rparr>"
  have h1: "get_cmdline (strtoul_fn ?w) [''-count'', ''0''] = Some ?c"
    by (simp add: get_cmdline_def get_num_def)
  have h2: "malloc_ok ?w"
    by simp
  have run: "rtask_run ?w (initial_arg ?c (stack_irq_missed ?w)) =
      \<lparr>res_status = Returned (- 1),
       res_arg = \<lparr>cmd = ?c, lat_hist = (replicate LAT_MAX_COUNT 0)[40 := 1], irq_count = 1,
                  irq_missed = 0\<rparr>,
       res_trace = setup_trace (task_env ?w)
         @ [Rd32 REG_BAR (REG_BASE + REG_FCLK) 1000000,
            Wr32 REG_BAR (REG_BASE + REG_CTL) 0x800003E8,
            UirqWait 1000 0 2, Rd32 REG_BAR (REG_BASE + REG_START) 1000,
            Rd32 REG_BAR (REG_BASE + REG_NOW) 1040, UirqWait 1000 (- 1) 0, PError 352,
            Wr32 REG_BAR (REG_BASE + REG_CTL) 0, EpciClose REG_BAR, UirqClose]\<rparr>"
    by (simp add: rtask_run_def rtask_main_def enable_ebone_slave_interrupt_def
        open_and_check_def start_and_measure_def measure_irqs_def loop_body_def record_irq_def
        to_micros_def elapsed_ticks_def update_hist_def initial_arg_def setup_trace_def
        lat_defs Let_def on_error_3_def on_error_2_def on_error_1_def on_error_0_def)
  have h3: "exit_status (main ?w [''-count'', ''0'']) = Returned (- 1)"
    using h1 run by (simp add: main_def Let_def)
  have p: "perror_lines (setup_trace (task_env ?w)
         @ [Rd32 REG_BAR (REG_BASE + REG_FCLK) 1000000,
            Wr32 REG_BAR (REG_BASE + REG_CTL) 0x800003E8,
            UirqWait 1000 0 2, Rd32 REG_BAR (REG_BASE + REG_START) 1000,
            Rd32 REG_BAR (REG_BASE + REG_NOW) 1040, UirqWait 1000 (- 1) 0, PError 352,
            Wr32 REG_BAR (REG_BASE + REG_CTL) 0, EpciClose REG_BAR, UirqClose])
        = [''[!] main.c,352'']"
    by (simp add: setup_trace_def dec.simps)
  show ?thesis
    using report_printed_on_termination [OF h1 h2 h3] h1 h3 run p by simp
qed

end
